theory Spec2Isabelle
  imports Complex_Main "HOL-Library.Multiset"
begin

section \<open>JavaScript numbers and dates\<close>

text \<open>
  The compliance engine computes with JavaScript numbers. A number is modelled as a real
  (the rounding of IEEE doubles is abstracted away) or as \<open>NaN\<close>, which is what the time
  value of an Invalid Date is and what every arithmetic operation on it returns. Infinities
  cannot arise: the only division is by a non-zero constant, and \<open>Math.min\<close> and
  \<open>Math.max\<close> are only called on non-empty argument lists.
\<close>

datatype jsnum = NaN | Num real

fun js_add :: "jsnum \<Rightarrow> jsnum \<Rightarrow> jsnum" where
  "js_add (Num a) (Num b) = Num (a + b)"
| "js_add _ _ = NaN"

fun js_sub :: "jsnum \<Rightarrow> jsnum \<Rightarrow> jsnum" where
  "js_sub (Num a) (Num b) = Num (a - b)"
| "js_sub _ _ = NaN"

text \<open>Division by a constant \<open>c\<close> that is not zero (the only division the engine performs).\<close>

fun js_div :: "jsnum \<Rightarrow> real \<Rightarrow> jsnum" where
  "js_div (Num a) c = Num (a / c)"
| "js_div NaN c = NaN"

text \<open>Comparisons: any comparison with \<open>NaN\<close> is false.\<close>

fun js_lt :: "jsnum \<Rightarrow> jsnum \<Rightarrow> bool" where
  "js_lt (Num a) (Num b) = (a < b)"
| "js_lt _ _ = False"

fun js_gt :: "jsnum \<Rightarrow> jsnum \<Rightarrow> bool" where
  "js_gt (Num a) (Num b) = (a > b)"
| "js_gt _ _ = False"

fun js_le :: "jsnum \<Rightarrow> jsnum \<Rightarrow> bool" where
  "js_le (Num a) (Num b) = (a \<le> b)"
| "js_le _ _ = False"

fun js_ge :: "jsnum \<Rightarrow> jsnum \<Rightarrow> bool" where
  "js_ge (Num a) (Num b) = (a \<ge> b)"
| "js_ge _ _ = False"

text \<open>\<open>Math.min(x, ...xs)\<close> and \<open>Math.max(x, ...xs)\<close>: \<open>NaN\<close> if any argument is.\<close>

fun js_min2 :: "jsnum \<Rightarrow> jsnum \<Rightarrow> jsnum" where
  "js_min2 (Num a) (Num b) = Num (min a b)"
| "js_min2 _ _ = NaN"

fun js_max2 :: "jsnum \<Rightarrow> jsnum \<Rightarrow> jsnum" where
  "js_max2 (Num a) (Num b) = Num (max a b)"
| "js_max2 _ _ = NaN"

definition Math_min :: "jsnum \<Rightarrow> jsnum list \<Rightarrow> jsnum" where
  "Math_min x xs = foldl js_min2 x xs"

definition Math_max :: "jsnum \<Rightarrow> jsnum list \<Rightarrow> jsnum" where
  "Math_max x xs = foldl js_max2 x xs"

subsection \<open>Parsing date and time strings\<close>

text \<open>
  \<open>new Date(s)\<close> is the host's parser. The model implements the ECMAScript date-time
  string format: a date \<open>YYYY-MM-DD\<close> (the value of a date input), read as UTC midnight,
  and a date-time \<open>YYYY-MM-DDTHH:mm\<close>, optionally with \<open>:ss\<close> and \<open>.sss\<close>, and
  optionally followed by a UTC offset \<open>Z\<close> or \<open>+HH:mm\<close> or \<open>-HH:mm\<close>. A date-time
  with an offset is read at that offset, one without is read as local time. The month is
  from 01 to 12 and the day from 01 to 31; a day past the end of the month runs over into
  the next month, as the host has it. The time fields must be in range (24:00 is the end
  of the day). What the host makes of a string of another shape is its own affair; the
  model gives an Invalid Date, and the theorems below are stated either on the value of
  \<open>newDate\<close> or on strings of the shapes modelled here. The local time zone is a
  parameter \<open>tz\<close>: its offset from UTC in milliseconds, taken to be constant (no
  daylight-saving change).
\<close>

definition digit :: "char \<Rightarrow> nat option" where
  "digit c =
     (let n = (of_char c :: nat) in if 48 \<le> n \<and> n \<le> 57 then Some (n - 48) else None)"

fun digits :: "string \<Rightarrow> nat option" where
  "digits [] = None"
| "digits [c] = digit c"
| "digits cs =
     (case (digits (butlast cs), digit (last cs)) of
        (Some n, Some d) \<Rightarrow> Some (10 * n + d)
      | _ \<Rightarrow> None)"

definition mkTime :: "nat option \<Rightarrow> nat option \<Rightarrow> nat option \<Rightarrow> nat option \<Rightarrow> nat option" where
  "mkTime h m s f =
     (case (h, m, s, f) of
        (Some hh, Some mm, Some ss, Some ff) \<Rightarrow>
          if (hh \<le> 23 \<and> mm \<le> 59 \<and> ss \<le> 59) \<or> (hh = 24 \<and> mm = 0 \<and> ss = 0 \<and> ff = 0)
          then Some (((hh * 60 + mm) * 60 + ss) * 1000 + ff)
          else None
      | _ \<Rightarrow> None)"

text \<open>A time of day without offset, in milliseconds since midnight.\<close>

fun parseTime :: "string \<Rightarrow> nat option" where
  "parseTime [h1, h2, c1, m1, m2] =
     (if c1 = CHR '':'' then mkTime (digits [h1, h2]) (digits [m1, m2]) (Some 0) (Some 0)
      else None)"
| "parseTime [h1, h2, c1, m1, m2, c2, s1, s2] =
     (if c1 = CHR '':'' \<and> c2 = CHR '':''
      then mkTime (digits [h1, h2]) (digits [m1, m2]) (digits [s1, s2]) (Some 0)
      else None)"
| "parseTime [h1, h2, c1, m1, m2, c2, s1, s2, c3, f1, f2, f3] =
     (if c1 = CHR '':'' \<and> c2 = CHR '':'' \<and> c3 = CHR ''.''
      then mkTime (digits [h1, h2]) (digits [m1, m2]) (digits [s1, s2]) (digits [f1, f2, f3])
      else None)"
| "parseTime _ = None"

text \<open>A UTC offset \<open>Z\<close>, \<open>+HH:mm\<close> or \<open>-HH:mm\<close>, in milliseconds east of UTC.\<close>

fun parseZone :: "string \<Rightarrow> int option" where
  "parseZone [z] = (if z = CHR ''Z'' then Some 0 else None)"
| "parseZone [sg, h1, h2, c1, m1, m2] =
     (if c1 = CHR '':'' \<and> (sg = CHR ''+'' \<or> sg = CHR ''-'') then
        (case (digits [h1, h2], digits [m1, m2]) of
           (Some hh, Some mm) \<Rightarrow>
             if hh \<le> 23 \<and> mm \<le> 59
             then Some ((if sg = CHR ''-'' then - 1 else 1) * int ((hh * 60 + mm) * 60 * 1000))
             else None
         | _ \<Rightarrow> None)
      else None)"
| "parseZone _ = None"

text \<open>
  The length of the time of day in front of an offset: 12 with milliseconds, 8 with
  seconds, 5 otherwise.
\<close>

definition timePartLength :: "string \<Rightarrow> nat" where
  "timePartLength t =
     (if length t > 8 \<and> t ! 8 = CHR ''.'' then 12
      else if length t > 5 \<and> t ! 5 = CHR '':'' then 8
      else 5)"

text \<open>
  The time part of a date-time string: a time of day alone (no offset, \<open>None\<close>), or a
  time of day followed by an offset.
\<close>

definition parseTimeZone :: "string \<Rightarrow> (nat \<times> int option) option" where
  "parseTimeZone t =
     (case parseTime t of
        Some ms \<Rightarrow> Some (ms, None)
      | None \<Rightarrow>
          (let n = timePartLength t in
           case (parseTime (take n t), parseZone (drop n t)) of
             (Some ms, Some off) \<Rightarrow> Some (ms, Some off)
           | _ \<Rightarrow> None))"

text \<open>
  The value of a time input control: \<open>HH:mm\<close> with the hour from 00 to 23.
\<close>

definition isHHmm :: "string \<Rightarrow> bool" where
  "isHHmm t =
     (length t = 5 \<and> (case parseTime t of Some ms \<Rightarrow> ms < 86400000 | None \<Rightarrow> False))"

text \<open>
  Days from 1970-01-01 to the given civil date (proleptic Gregorian calendar). The result
  is linear in the day, so a day past the end of the month counts on into the next.
\<close>

definition daysFromCivil :: "nat \<Rightarrow> nat \<Rightarrow> nat \<Rightarrow> int" where
  "daysFromCivil y m d =
     (let y' = (if m \<le> 2 then int y - 1 else int y);
          era = y' div 400;
          yoe = y' - era * 400;
          mp = (if m > 2 then int m - 3 else int m + 9);
          doy = (153 * mp + 2) div 5 + int d - 1;
          doe = yoe * 365 + yoe div 4 - yoe div 100 + doy
      in era * 146097 + doe - 719468)"

text \<open>The date part, in days since the epoch.\<close>

fun parseDate :: "string \<Rightarrow> int option" where
  "parseDate [y1, y2, y3, y4, c1, m1, m2, c2, d1, d2] =
     (if c1 = CHR ''-'' \<and> c2 = CHR ''-'' then
        (case (digits [y1, y2, y3, y4], digits [m1, m2], digits [d1, d2]) of
           (Some y, Some m, Some d) \<Rightarrow>
             if 1 \<le> m \<and> m \<le> 12 \<and> 1 \<le> d \<and> d \<le> 31
             then Some (daysFromCivil y m d) else None
         | _ \<Rightarrow> None)
      else None)"
| "parseDate _ = None"

definition msPerDay :: int where
  "msPerDay = 24 * 60 * 60 * 1000"

text \<open>The time value of \<open>new Date(s)\<close>: milliseconds since the epoch, or \<open>NaN\<close>.\<close>

definition newDate :: "int \<Rightarrow> string \<Rightarrow> jsnum" where
  "newDate tz s =
     (if length s = 10 then
        (case parseDate s of
           Some days \<Rightarrow> Num (of_int (days * msPerDay))
         | None \<Rightarrow> NaN)
      else
        (case (parseDate (take 10 s), drop 10 s) of
           (Some days, c # t) \<Rightarrow>
             if c = CHR ''T'' then
               (case parseTimeZone t of
                  Some (ms, zone) \<Rightarrow>
                    Num (of_int (days * msPerDay + int ms
                                 - (case zone of None \<Rightarrow> tz | Some off \<Rightarrow> off)))
                | None \<Rightarrow> NaN)
             else NaN
         | _ \<Rightarrow> NaN))"

text \<open>
  \<open>d.setDate(d.getDate() + 1)\<close>: the same local time on the next calendar day, which
  under a constant offset is 24 hours later; an Invalid Date stays invalid.
\<close>

definition setDate_next :: "jsnum \<Rightarrow> jsnum" where
  "setDate_next d = js_add d (Num (of_int msPerDay))"

section \<open>Data model\<close>

record sector =
  sid :: string
  departure :: string
  arrival :: string
  takeoffTime :: string
  landingTime :: string
  flightTime :: real

record techlogEntry =
  eid :: string
  techlogNumber :: string
  date :: string
  aircraftRegistration :: string
  pilotName :: string
  coPilotName :: "string option"
  sectors :: "sector list"
  createdAt :: jsnum

section \<open>Time arithmetic of the entry form\<close>

text \<open>
  \<open>calculateFlightTime\<close> of \<open>TechlogEntryForm.tsx\<close>. The empty string is falsy, so the
  guard returns zero when either argument is empty. A \<open>Date\<close> compares by its time value.
\<close>

definition form_calculateFlightTime :: "int \<Rightarrow> string \<Rightarrow> string \<Rightarrow> jsnum" where
  "form_calculateFlightTime tz takeoffTime' landingTime' =
     (if takeoffTime' = [] \<or> landingTime' = [] then Num 0
      else
        let takeoff = newDate tz (''2000-01-01T'' @ takeoffTime');
            landing = newDate tz (''2000-01-01T'' @ landingTime');
            landing = (if js_lt landing takeoff then setDate_next landing else landing);
            diffMs = js_sub landing takeoff
        in js_div diffMs (1000 * 60 * 60))"

section \<open>Sector and entry aggregation\<close>

text \<open>\<open>calculateFlightTime\<close> and \<open>calculateDutyTime\<close> of the calculations module.\<close>

definition calculateFlightTime :: "sector list \<Rightarrow> real" where
  "calculateFlightTime ss = foldl (\<lambda>total s. total + flightTime s) 0 ss"

definition calculateDutyTime :: "int \<Rightarrow> sector list \<Rightarrow> jsnum" where
  "calculateDutyTime tz ss =
     (if length ss = 0 then Num 0
      else
        let takeoffTimes = map (\<lambda>s. newDate tz (''2000-01-01T'' @ takeoffTime s)) ss;
            landingTimes = map (\<lambda>s. newDate tz (''2000-01-01T'' @ landingTime s)) ss;
            earliestTakeoff = Math_min (hd takeoffTimes) (tl takeoffTimes);
            latestLanding = Math_max (hd landingTimes) (tl landingTimes);
            dutyStart = js_add earliestTakeoff (Num (45 * 60 * 1000));
            dutyEnd = js_add latestLanding (Num (15 * 60 * 1000));
            dutyTimeMs = js_sub dutyEnd dutyStart;
            dutyTimeHours = js_div dutyTimeMs (1000 * 60 * 60)
        in js_max2 (Num 0) dutyTimeHours)"

section \<open>Rolling windows and exceedances\<close>

text \<open>The limit tables \<open>FLIGHT_TIME_LIMITS\<close> and \<open>DUTY_TIME_LIMITS\<close>.\<close>

definition FLIGHT_MAX_SECTORS_24H :: nat where "FLIGHT_MAX_SECTORS_24H = 10"
definition FLIGHT_MAX_HOURS_7D :: real where "FLIGHT_MAX_HOURS_7D = 34"
definition FLIGHT_MAX_HOURS_28D :: real where "FLIGHT_MAX_HOURS_28D = 100"
definition FLIGHT_MAX_HOURS_365D :: real where "FLIGHT_MAX_HOURS_365D = 1000"
definition DUTY_MAX_HOURS_7D :: real where "DUTY_MAX_HOURS_7D = 55"
definition DUTY_MAX_HOURS_28D :: real where "DUTY_MAX_HOURS_28D = 190"
definition DUTY_MAX_HOURS_365D :: real where "DUTY_MAX_HOURS_365D = 1800"

record exceedanceFlags =
  exc_flightTime7Days :: bool
  exc_flightTime28Days :: bool
  exc_flightTime365Days :: bool
  exc_dutyTime7Days :: bool
  exc_dutyTime28Days :: bool
  exc_dutyTime365Days :: bool
  exc_sectors24Hours :: bool

record pilotStats =
  stats_pilotName :: string
  flightTime7Days :: real
  flightTime28Days :: real
  flightTime365Days :: real
  dutyTime7Days :: jsnum
  dutyTime28Days :: jsnum
  dutyTime365Days :: jsnum
  sectors7Days :: nat
  sectors28Days :: nat
  sectors365Days :: nat
  exceedances :: exceedanceFlags

text \<open>
  The filter \<open>entry.pilotName === pilotName || entry.coPilotName === pilotName\<close>, which
  the statistics and both dashboard functions apply to the stored entries. An absent
  co-pilot is \<open>None\<close> and equals no name.
\<close>

definition pilotEntriesOf :: "string \<Rightarrow> techlogEntry list \<Rightarrow> techlogEntry list" where
  "pilotEntriesOf name entries =
     filter (\<lambda>entry. pilotName entry = name \<or> coPilotName entry = Some name) entries"

definition getEntriesInDateRange ::
  "int \<Rightarrow> techlogEntry list \<Rightarrow> jsnum \<Rightarrow> jsnum \<Rightarrow> techlogEntry list" where
  "getEntriesInDateRange tz entries startDate endDate =
     filter (\<lambda>entry.
        let entryDate = newDate tz (date entry)
        in js_ge entryDate startDate \<and> js_le entryDate endDate) entries"

definition sumFlightTime :: "techlogEntry list \<Rightarrow> real" where
  "sumFlightTime es = foldl (\<lambda>total entry. total + calculateFlightTime (sectors entry)) 0 es"

definition sumDutyTime :: "int \<Rightarrow> techlogEntry list \<Rightarrow> jsnum" where
  "sumDutyTime tz es =
     foldl (\<lambda>total entry. js_add total (calculateDutyTime tz (sectors entry))) (Num 0) es"

definition sumSectors :: "techlogEntry list \<Rightarrow> nat" where
  "sumSectors es = foldl (\<lambda>total entry. total + length (sectors entry)) 0 es"

text \<open>The 24-hour sector count, a local of \<open>calculatePilotStats\<close>.\<close>

definition sectors24Hours :: "int \<Rightarrow> real \<Rightarrow> string \<Rightarrow> techlogEntry list \<Rightarrow> nat" where
  "sectors24Hours tz now name entries =
     (let twentyFourHoursAgo = Num (now - 24 * 60 * 60 * 1000);
          entries24Hours =
            getEntriesInDateRange tz (pilotEntriesOf name entries) twentyFourHoursAgo (Num now)
      in sumSectors entries24Hours)"

text \<open>\<open>calculatePilotStats\<close>; the clock reading \<open>new Date()\<close> is the parameter \<open>now\<close>.\<close>

definition calculatePilotStats ::
  "int \<Rightarrow> real \<Rightarrow> string \<Rightarrow> techlogEntry list \<Rightarrow> pilotStats" where
  "calculatePilotStats tz now name entries =
     (let sevenDaysAgo = Num (now - 7 * 24 * 60 * 60 * 1000);
          twentyEightDaysAgo = Num (now - 28 * 24 * 60 * 60 * 1000);
          threeSixtyFiveDaysAgo = Num (now - 365 * 24 * 60 * 60 * 1000);
          pilotEntries = pilotEntriesOf name entries;
          entries7Days = getEntriesInDateRange tz pilotEntries sevenDaysAgo (Num now);
          entries28Days = getEntriesInDateRange tz pilotEntries twentyEightDaysAgo (Num now);
          entries365Days = getEntriesInDateRange tz pilotEntries threeSixtyFiveDaysAgo (Num now);
          ft7 = sumFlightTime entries7Days;
          ft28 = sumFlightTime entries28Days;
          ft365 = sumFlightTime entries365Days;
          dt7 = sumDutyTime tz entries7Days;
          dt28 = sumDutyTime tz entries28Days;
          dt365 = sumDutyTime tz entries365Days
      in \<lparr> stats_pilotName = name,
           flightTime7Days = ft7,
           flightTime28Days = ft28,
           flightTime365Days = ft365,
           dutyTime7Days = dt7,
           dutyTime28Days = dt28,
           dutyTime365Days = dt365,
           sectors7Days = sumSectors entries7Days,
           sectors28Days = sumSectors entries28Days,
           sectors365Days = sumSectors entries365Days,
           exceedances = \<lparr>
             exc_flightTime7Days = (ft7 > FLIGHT_MAX_HOURS_7D),
             exc_flightTime28Days = (ft28 > FLIGHT_MAX_HOURS_28D),
             exc_flightTime365Days = (ft365 > FLIGHT_MAX_HOURS_365D),
             exc_dutyTime7Days = js_gt dt7 (Num DUTY_MAX_HOURS_7D),
             exc_dutyTime28Days = js_gt dt28 (Num DUTY_MAX_HOURS_28D),
             exc_dutyTime365Days = js_gt dt365 (Num DUTY_MAX_HOURS_365D),
             exc_sectors24Hours =
               (sectors24Hours tz now name entries > FLIGHT_MAX_SECTORS_24H) \<rparr> \<rparr>)"

section \<open>Daily duty grouping\<close>

text \<open>
  \<open>getPilotDailyDetails\<close> groups the pilot's entries in a plain object keyed by the date
  string. The object is modelled as an association list in insertion order. A key that
  names a member of \<open>Object.prototype\<close> is found on the prototype chain by
  \<open>groups[date]\<close>, is truthy, and has no \<open>push\<close>: the call throws a \<open>TypeError\<close>.
\<close>

datatype error = TypeError

definition objectPrototypeKeys :: "string list" where
  "objectPrototypeKeys =
     [''constructor'', ''__proto__'', ''hasOwnProperty'', ''isPrototypeOf'',
      ''propertyIsEnumerable'', ''toLocaleString'', ''toString'', ''valueOf'',
      ''__defineGetter__'', ''__defineSetter__'', ''__lookupGetter__'', ''__lookupSetter__'']"

type_synonym groups = "(string \<times> techlogEntry list) list"

definition groupEntry :: "groups \<Rightarrow> techlogEntry \<Rightarrow> error + groups" where
  "groupEntry groups entry =
     (let d = date entry in
      case map_of groups d of
        Some es \<Rightarrow> Inr (map (\<lambda>(k, v). if k = d then (k, v @ [entry]) else (k, v)) groups)
      | None \<Rightarrow>
          if d \<in> set objectPrototypeKeys then Inl TypeError
          else Inr (groups @ [(d, [entry])]))"

fun groupByDate :: "groups \<Rightarrow> techlogEntry list \<Rightarrow> error + groups" where
  "groupByDate groups [] = Inr groups"
| "groupByDate groups (entry # rest) =
     (case groupEntry groups entry of
        Inl err \<Rightarrow> Inl err
      | Inr groups' \<Rightarrow> groupByDate groups' rest)"

text \<open>
  \<open>Object.entries\<close> lists the keys that are array indices (canonical decimal numerals
  below \<open>2^32 - 1\<close>) first, in ascending numeric order, and then the other keys in
  insertion order.
\<close>

definition isArrayIndex :: "string \<Rightarrow> bool" where
  "isArrayIndex k =
     (case digits k of
        Some n \<Rightarrow> (k = ''0'' \<or> hd k \<noteq> CHR ''0'') \<and> n < 2 ^ 32 - 1
      | None \<Rightarrow> False)"

definition indexValue :: "string \<Rightarrow> nat" where
  "indexValue k = (case digits k of Some n \<Rightarrow> n | None \<Rightarrow> 0)"

definition Object_entries :: "groups \<Rightarrow> groups" where
  "Object_entries groups =
     sort_key (\<lambda>(k, v). indexValue k) (filter (\<lambda>(k, v). isArrayIndex k) groups)
     @ filter (\<lambda>(k, v). \<not> isArrayIndex k) groups"

text \<open>
  \<open>Array.prototype.sort\<close> with a comparator is stable; a comparator result of \<open>NaN\<close>
  counts as zero. The model is a stable insertion sort, which is the result of every
  conforming sort when the comparator is a consistent ordering (the order is
  implementation-defined otherwise). The comparators below are differences of dates, and
  are consistent when the dates parse: every theorem that depends on the order has that
  premise.
\<close>

fun insertBy :: "('a \<Rightarrow> 'a \<Rightarrow> jsnum) \<Rightarrow> 'a \<Rightarrow> 'a list \<Rightarrow> 'a list" where
  "insertBy cmp x [] = [x]"
| "insertBy cmp x (y # ys) =
     (if js_gt (cmp x y) (Num 0) then y # insertBy cmp x ys else x # y # ys)"

definition Array_sort :: "('a \<Rightarrow> 'a \<Rightarrow> jsnum) \<Rightarrow> 'a list \<Rightarrow> 'a list" where
  "Array_sort cmp xs = foldr (insertBy cmp) xs []"

record dailyDetail =
  day_date :: string
  day_entries :: "techlogEntry list"
  day_sectors :: "sector list"
  totalFlightTime :: real
  isOvernight :: "bool option"

text \<open>
  The last element of an array, \<open>xs[xs.length - 1]\<close>, and the first, \<open>xs[0]\<close>; both are
  \<open>undefined\<close> (here \<open>None\<close>) on the empty array.
\<close>

definition lastElem :: "'a list \<Rightarrow> 'a option" where
  "lastElem xs = (if xs = [] then None else Some (xs ! (length xs - 1)))"

definition firstElem :: "'a list \<Rightarrow> 'a option" where
  "firstElem xs = (if xs = [] then None else Some (xs ! 0))"

text \<open>
  One day's summary. \<open>lastSector && lastSector.arrival !== 'HTDA'\<close> is \<open>undefined\<close>
  (\<open>None\<close>) for a day without sectors.
\<close>

definition mkDailyDetail :: "string \<times> techlogEntry list \<Rightarrow> dailyDetail" where
  "mkDailyDetail g =
     (let date' = fst g;
          entries = snd g;
          allSectors = concat (map sectors entries);
          lastSector = lastElem allSectors;
          isOvernight' = (case lastSector of
                            None \<Rightarrow> None
                          | Some s \<Rightarrow> Some (arrival s \<noteq> ''HTDA''))
      in \<lparr> day_date = date',
           day_entries = entries,
           day_sectors = allSectors,
           totalFlightTime = foldl (\<lambda>sum s. sum + flightTime s) 0 allSectors,
           isOvernight = isOvernight' \<rparr>)"

definition getPilotDailyDetails ::
  "int \<Rightarrow> techlogEntry list \<Rightarrow> string \<Rightarrow> error + dailyDetail list" where
  "getPilotDailyDetails tz stored name =
     (let pilotEntries = pilotEntriesOf name stored in
      case groupByDate [] pilotEntries of
        Inl err \<Rightarrow> Inl err
      | Inr dailyGroups \<Rightarrow>
          Inr (Array_sort
                 (\<lambda>a b. js_sub (newDate tz (day_date b)) (newDate tz (day_date a)))
                 (map mkDailyDetail (Object_entries dailyGroups))))"

text \<open>What the grouping loop maintains, for the entries \<open>seen\<close> so far.\<close>

definition grouped :: "groups \<Rightarrow> techlogEntry list \<Rightarrow> bool" where
  "grouped g seen \<longleftrightarrow>
     distinct (map fst g)
     \<and> fst ` set g = date ` set seen
     \<and> (\<forall>k v. (k, v) \<in> set g \<longrightarrow> v = filter (\<lambda>e. date e = k) seen)"

record overnightCount =
  oc_totalOvernights :: nat
  oc_recentOvernights :: nat

text \<open>
  \<open>setDate(getDate() - 7)\<close> on the clock reading: the same local time seven days
  earlier, which under a constant offset is \<open>7 * 24\<close> hours earlier.
\<close>

definition sevenDaysBefore :: "real \<Rightarrow> jsnum" where
  "sevenDaysBefore now = Num (now - 7 * 24 * 60 * 60 * 1000)"

definition getPilotOvernightCount ::
  "int \<Rightarrow> real \<Rightarrow> techlogEntry list \<Rightarrow> string \<Rightarrow> error + overnightCount" where
  "getPilotOvernightCount tz now stored name =
     (case getPilotDailyDetails tz stored name of
        Inl err \<Rightarrow> Inl err
      | Inr dailyDetails \<Rightarrow>
          let totalOvernights = length (filter (\<lambda>day. isOvernight day = Some True) dailyDetails);
              sevenDaysAgo = sevenDaysBefore now;
              recentOvernights =
                length (filter (\<lambda>day. js_ge (newDate tz (day_date day)) sevenDaysAgo
                                       \<and> isOvernight day = Some True) dailyDetails)
          in Inr \<lparr> oc_totalOvernights = totalOvernights,
                   oc_recentOvernights = recentOvernights \<rparr>)"

section \<open>Rest periods\<close>

record restPeriod =
  rp_start :: jsnum
  rp_end :: jsnum
  hours :: jsnum
  isCompliant :: bool
  fromDate :: string
  toDate :: string

record restTotals =
  acc_total :: nat
  acc_compliant :: nat
  acc_details :: "restPeriod list"

text \<open>
  The body of the loop over consecutive duty days, for the index \<open>i\<close>. The loop bound
  keeps \<open>i + 1\<close> below the length of the list.
\<close>

definition restStep :: "int \<Rightarrow> dailyDetail list \<Rightarrow> restTotals \<Rightarrow> nat \<Rightarrow> restTotals" where
  "restStep tz days acc i =
     (let currentDay = days ! i;
          nextDay = days ! (i + 1);
          lastSectorOfCurrentDay = lastElem (day_sectors currentDay);
          firstSectorOfNextDay = firstElem (day_sectors nextDay)
      in case (lastSectorOfCurrentDay, firstSectorOfNextDay) of
           (Some lastSector, Some firstSector) \<Rightarrow>
             let lastLandingTime =
                   newDate tz (day_date currentDay @ ''T'' @ landingTime lastSector);
                 firstTakeoffTime =
                   newDate tz (day_date nextDay @ ''T'' @ takeoffTime firstSector);
                 restStart = js_add lastLandingTime (Num (15 * 60 * 1000));
                 restEnd = js_add firstTakeoffTime (Num (45 * 60 * 1000));
                 restHours = js_div (js_sub restEnd restStart) (1000 * 60 * 60);
                 isCompliant' = js_ge restHours (Num 36)
             in \<lparr> acc_total = acc_total acc + 1,
                  acc_compliant = (if isCompliant' then acc_compliant acc + 1
                                   else acc_compliant acc),
                  acc_details = acc_details acc @
                    [\<lparr> rp_start = restStart, rp_end = restEnd, hours = restHours,
                       isCompliant = isCompliant',
                       fromDate = day_date currentDay, toDate = day_date nextDay \<rparr>] \<rparr>
         | _ \<Rightarrow> acc)"

text \<open>\<open>for (let i = 0; i < days.length - 1; i++)\<close>, from empty totals.\<close>

definition restLoop :: "int \<Rightarrow> dailyDetail list \<Rightarrow> restTotals" where
  "restLoop tz days =
     foldl (restStep tz days) \<lparr> acc_total = 0, acc_compliant = 0, acc_details = [] \<rparr>
       [0 ..< length days - 1]"

text \<open>
  The rest period between two consecutive duty days, in the words of the specification:
  it starts 15 minutes after the last landing of the earlier day, on that day's date, and
  ends 45 minutes after the first takeoff of the later day, on that day's date; its
  duration is the difference in hours, and it is compliant iff the duration is at least 36.
\<close>

definition spec_restPeriod :: "int \<Rightarrow> dailyDetail \<Rightarrow> dailyDetail \<Rightarrow> restPeriod" where
  "spec_restPeriod tz cur nxt =
     (let start = js_add (newDate tz (day_date cur @ ''T'' @ landingTime (last (day_sectors cur))))
                    (Num (15 * 60 * 1000));
          finish = js_add (newDate tz (day_date nxt @ ''T'' @ takeoffTime (hd (day_sectors nxt))))
                     (Num (45 * 60 * 1000));
          duration = js_div (js_sub finish start) (60 * 60 * 1000)
      in \<lparr> rp_start = start, rp_end = finish, hours = duration,
           isCompliant = js_ge duration (Num 36),
           fromDate = day_date cur, toDate = day_date nxt \<rparr>)"

text \<open>Both days of a pair have at least one sector.\<close>

definition bothFlown :: "dailyDetail \<Rightarrow> dailyDetail \<Rightarrow> bool" where
  "bothFlown cur nxt \<longleftrightarrow> day_sectors cur \<noteq> [] \<and> day_sectors nxt \<noteq> []"

record restCompliance =
  totalOvernights :: nat
  totalRestPeriods :: nat
  compliantRestPeriods :: nat
  recentOvernights :: nat
  recentRestPeriods :: nat
  recentCompliantRestPeriods :: nat
  isFullyCompliant :: bool
  recentRestPeriodDetails :: "restPeriod list"

text \<open>
  \<open>getPilotRestCompliance\<close>. Its two loops have the same body and are both \<open>restLoop\<close>:
  the first runs over all days in ascending order, the second over the days that pass
  the seven-day filter. \<open>now\<close> is the clock reading of the function itself and \<open>now'\<close>
  the later one of \<open>getPilotOvernightCount\<close>.
\<close>

definition recentDays :: "int \<Rightarrow> real \<Rightarrow> dailyDetail list \<Rightarrow> dailyDetail list" where
  "recentDays tz now sortedDailyDetails =
     (let sevenDaysAgo = sevenDaysBefore now
      in filter (\<lambda>day. js_ge (newDate tz (day_date day)) sevenDaysAgo) sortedDailyDetails)"

definition getPilotRestCompliance ::
  "int \<Rightarrow> real \<Rightarrow> real \<Rightarrow> techlogEntry list \<Rightarrow> string \<Rightarrow> error + restCompliance" where
  "getPilotRestCompliance tz now now' stored name =
     (case getPilotDailyDetails tz stored name of
        Inl err \<Rightarrow> Inl err
      | Inr dailyDetails \<Rightarrow>
          let sortedDailyDetails =
                Array_sort
                  (\<lambda>a b. js_sub (newDate tz (day_date a)) (newDate tz (day_date b)))
                  dailyDetails;
              full = restLoop tz sortedDailyDetails;
              recentDailyDetails = recentDays tz now sortedDailyDetails;
              recent = restLoop tz recentDailyDetails;
              isFullyCompliant' =
                (acc_total recent = 0 \<or> acc_compliant recent = acc_total recent)
          in (case getPilotOvernightCount tz now' stored name of
                Inl err \<Rightarrow> Inl err
              | Inr overnightCounts \<Rightarrow>
                  Inr \<lparr> totalOvernights = oc_totalOvernights overnightCounts,
                          totalRestPeriods = acc_total full,
                          compliantRestPeriods = acc_compliant full,
                          recentOvernights = oc_recentOvernights overnightCounts,
                          recentRestPeriods = acc_total recent,
                          recentCompliantRestPeriods = acc_compliant recent,
                          isFullyCompliant = isFullyCompliant',
                          recentRestPeriodDetails = acc_details recent \<rparr>))"

section \<open>Example data\<close>

text \<open>
  The sectors of the example scenario (two legs on one day), and a sector whose takeoff
  time is not a time of day.
\<close>

definition exSectorA :: sector where
  "exSectorA = \<lparr> sid = ''1'', departure = ''KJFK'', arrival = ''KLAX'',
                  takeoffTime = ''07:00'', landingTime = ''10:30'', flightTime = 3.5 \<rparr>"

definition exSectorB :: sector where
  "exSectorB = \<lparr> sid = ''2'', departure = ''KLAX'', arrival = ''KSEA'',
                  takeoffTime = ''11:30'', landingTime = ''13:45'', flightTime = 2.25 \<rparr>"

definition exSectorBad :: sector where
  "exSectorBad = \<lparr> sid = ''3'', departure = ''KSEA'', arrival = ''HTDA'',
                    takeoffTime = ''abc'', landingTime = ''14:00'', flightTime = 0 \<rparr>"

text \<open>A sector whose landing time carries a UTC offset of minus twelve hours.\<close>

definition exSectorOffset :: sector where
  "exSectorOffset = \<lparr> sid = ''10'', departure = ''HTDA'', arrival = ''HTDA'',
                       takeoffTime = ''00:00'', landingTime = ''23:30-12:00'',
                       flightTime = 0 \<rparr>"

text \<open>A sector that departs before midnight and lands after it.\<close>

definition exSectorNight :: sector where
  "exSectorNight = \<lparr> sid = ''4'', departure = ''HTKJ'', arrival = ''HTDA'',
                      takeoffTime = ''23:30'', landingTime = ''00:15'', flightTime = 0.75 \<rparr>"

text \<open>
  The entries of the example scenario: the pilot flies two legs on 2024-01-01 and, as
  co-pilot, one leg on 2024-01-03.
\<close>

definition exSectorC :: sector where
  "exSectorC = \<lparr> sid = ''5'', departure = ''KSEA'', arrival = ''KJFK'',
                  takeoffTime = ''06:00'', landingTime = ''14:00'', flightTime = 8 \<rparr>"

definition exEntry1 :: techlogEntry where
  "exEntry1 = \<lparr> eid = ''e1'', techlogNumber = ''TL-1'', date = ''2024-01-01'',
                 aircraftRegistration = ''5H-ABC'', pilotName = ''A. Smith'',
                 coPilotName = None, sectors = [exSectorA, exSectorB],
                 createdAt = Num 1704067200000 \<rparr>"

definition exEntry3 :: techlogEntry where
  "exEntry3 = \<lparr> eid = ''e3'', techlogNumber = ''TL-3'', date = ''2024-01-03'',
                 aircraftRegistration = ''5H-ABC'', pilotName = ''B. Jones'',
                 coPilotName = Some ''A. Smith'', sectors = [exSectorC],
                 createdAt = Num 1704240000000 \<rparr>"

text \<open>The evaluation instant of the examples: 2024-01-09 12:00 UTC.\<close>

definition exNow :: real where
  "exNow = 1704801600000"

text \<open>Entries whose seven-day flight time is exactly the limit, and just above it.\<close>

definition exSectorLimit :: sector where
  "exSectorLimit = \<lparr> sid = ''6'', departure = ''HTDA'', arrival = ''HTDA'',
                      takeoffTime = ''06:00'', landingTime = ''16:00'', flightTime = 34 \<rparr>"

definition exSectorOver :: sector where
  "exSectorOver = \<lparr> sid = ''7'', departure = ''HTDA'', arrival = ''HTDA'',
                     takeoffTime = ''06:00'', landingTime = ''16:00'', flightTime = 34.01 \<rparr>"

definition exEntryLimit :: techlogEntry where
  "exEntryLimit = \<lparr> eid = ''e4'', techlogNumber = ''TL-4'', date = ''2024-01-03'',
                     aircraftRegistration = ''5H-ABC'', pilotName = ''A. Smith'',
                     coPilotName = None, sectors = [exSectorLimit],
                     createdAt = Num 1704240000000 \<rparr>"

definition exEntryOver :: techlogEntry where
  "exEntryOver = \<lparr> eid = ''e5'', techlogNumber = ''TL-5'', date = ''2024-01-03'',
                    aircraftRegistration = ''5H-ABC'', pilotName = ''A. Smith'',
                    coPilotName = None, sectors = [exSectorOver],
                    createdAt = Num 1704240000000 \<rparr>"

text \<open>
  A stored entry set: a second entry of the pilot on 2024-01-01, stored after the entry
  of 2024-01-03, and an entry of another crew. \<open>exDays\<close> is the pilot's daily
  summary list, most recent day first.
\<close>

definition exEntry1b :: techlogEntry where
  "exEntry1b = \<lparr> eid = ''e1b'', techlogNumber = ''TL-1b'', date = ''2024-01-01'',
                  aircraftRegistration = ''5H-XYZ'', pilotName = ''A. Smith'',
                  coPilotName = None, sectors = [exSectorNight],
                  createdAt = Num 1704067200000 \<rparr>"

definition exEntryOther :: techlogEntry where
  "exEntryOther = \<lparr> eid = ''e2'', techlogNumber = ''TL-2'', date = ''2024-01-01'',
                     aircraftRegistration = ''5H-XYZ'', pilotName = ''B. Jones'',
                     coPilotName = None, sectors = [exSectorC],
                     createdAt = Num 1704067200000 \<rparr>"

definition exStored :: "techlogEntry list" where
  "exStored = [exEntry1, exEntryOther, exEntry3, exEntry1b]"

definition exDays :: "dailyDetail list" where
  "exDays = [mkDailyDetail (''2024-01-03'', [exEntry3]),
             mkDailyDetail (''2024-01-01'', [exEntry1, exEntry1b])]"

text \<open>
  A pilot's log over nine days. The rest from 2024-01-03 to 2024-01-05 lasts exactly 36
  hours, the rest from 2024-01-05 to 2024-01-07 lasts 35.99 hours, and the entry of
  2024-01-09 has no sectors. \<open>exRestDays\<close> is the list of daily summaries in ascending
  order, \<open>exDaysDesc\<close> the same in descending order, and \<open>exResult\<close> the rest
  compliance of the pilot at the instant \<open>exNow\<close>.
\<close>

definition exSectorD :: sector where
  "exSectorD = \<lparr> sid = ''8'', departure = ''KJFK'', arrival = ''HTDA'',
                  takeoffTime = ''01:30'', landingTime = ''20:00'', flightTime = 18.5 \<rparr>"

definition exSectorE :: sector where
  "exSectorE = \<lparr> sid = ''9'', departure = ''HTDA'', arrival = ''HTKJ'',
                  takeoffTime = ''07:29:24'', landingTime = ''09:00'', flightTime = 1.51 \<rparr>"

definition exEntry5 :: techlogEntry where
  "exEntry5 = \<lparr> eid = ''e6'', techlogNumber = ''TL-6'', date = ''2024-01-05'',
                 aircraftRegistration = ''5H-ABC'', pilotName = ''A. Smith'',
                 coPilotName = None, sectors = [exSectorD],
                 createdAt = Num 1704412800000 \<rparr>"

definition exEntry7 :: techlogEntry where
  "exEntry7 = \<lparr> eid = ''e7'', techlogNumber = ''TL-7'', date = ''2024-01-07'',
                 aircraftRegistration = ''5H-ABC'', pilotName = ''A. Smith'',
                 coPilotName = None, sectors = [exSectorE],
                 createdAt = Num 1704585600000 \<rparr>"

definition exEntry9 :: techlogEntry where
  "exEntry9 = \<lparr> eid = ''e8'', techlogNumber = ''TL-8'', date = ''2024-01-09'',
                 aircraftRegistration = ''5H-ABC'', pilotName = ''A. Smith'',
                 coPilotName = None, sectors = [],
                 createdAt = Num 1704758400000 \<rparr>"

definition exDay1 :: dailyDetail where "exDay1 = mkDailyDetail (''2024-01-01'', [exEntry1])"
definition exDay3 :: dailyDetail where "exDay3 = mkDailyDetail (''2024-01-03'', [exEntry3])"
definition exDay5 :: dailyDetail where "exDay5 = mkDailyDetail (''2024-01-05'', [exEntry5])"
definition exDay7 :: dailyDetail where "exDay7 = mkDailyDetail (''2024-01-07'', [exEntry7])"
definition exDay9 :: dailyDetail where "exDay9 = mkDailyDetail (''2024-01-09'', [exEntry9])"

definition exRestDays :: "dailyDetail list" where
  "exRestDays = [exDay1, exDay3, exDay5, exDay7, exDay9]"

definition exLog :: "techlogEntry list" where
  "exLog = [exEntry1, exEntry3, exEntry5, exEntry7, exEntry9]"

definition exDaysDesc :: "dailyDetail list" where
  "exDaysDesc = [exDay9, exDay7, exDay5, exDay3, exDay1]"

definition exResult :: restCompliance where
  "exResult = \<lparr> totalOvernights = 3, totalRestPeriods = 3, compliantRestPeriods = 2,
                 recentOvernights = 2, recentRestPeriods = 2, recentCompliantRestPeriods = 1,
                 isFullyCompliant = False,
                 recentRestPeriodDetails =
                   [spec_restPeriod 0 exDay3 exDay5, spec_restPeriod 0 exDay5 exDay7] \<rparr>"

section \<open>Facts about the parser\<close>

declare parseDate.simps [simp del] parseTime.simps [simp del] parseZone.simps [simp del]

lemma digit_le: "digit c = Some d \<Longrightarrow> d \<le> 9"
  by (auto simp: digit_def Let_def split: if_splits)

lemma digits3_le: "digits [a, b, c] = Some n \<Longrightarrow> n \<le> 999"
  by (auto split: option.splits dest!: digit_le)

declare digits.simps [simp del]

lemma mkTime_le:
  assumes "Some ms = mkTime h m s f" and "\<forall>ff. f = Some ff \<longrightarrow> ff \<le> 999"
  shows "ms \<le> 86400000"
  using assms by (auto simp: mkTime_def split: option.splits if_splits)

lemma parseTime_le: "parseTime t = Some ms \<Longrightarrow> ms \<le> 86400000"
  by (erule parseTime.elims) (auto split: if_splits elim!: mkTime_le dest: digits3_le)

lemma parseTime_Nil: "parseTime [] = None"
  by (simp add: parseTime.simps)

lemma hhmm_arith:
  fixes hh mm :: nat
  assumes "(hh * 60 + mm) * 60 * 1000 < 86400000" and "mm \<le> 59"
  shows "(hh * 60 + mm) * 60 * 1000 \<le> 86340000"
proof -
  have "hh \<le> 23"
  proof (rule ccontr)
    assume "\<not> hh \<le> 23"
    then have "24 \<le> hh" by simp
    then have "24 * 3600000 \<le> hh * 3600000" by simp
    with assms(1) show False by simp
  qed
  then have "hh * 3600000 \<le> 23 * 3600000" by simp
  moreover from assms(2) have "mm * 60000 \<le> 59 * 60000" by simp
  ultimately show ?thesis by simp
qed

lemma parseTime_hhmm_le:
  assumes "parseTime t = Some ms" and "length t = 5" and "ms < 86400000"
  shows "ms \<le> 86340000"
proof -
  from assms(2) obtain h1 h2 c1 m1 m2 where t: "t = [h1, h2, c1, m1, m2]"
    by (auto simp: length_Suc_conv eval_nat_numeral)
  from assms(1) obtain hh mm where
    ms: "ms = (hh * 60 + mm) * 60 * 1000" and "mm \<le> 59"
    unfolding t by (auto simp: parseTime.simps mkTime_def split: if_splits option.splits)
  with assms(3) show ?thesis
    using hhmm_arith [of hh mm] by simp
qed

lemma parseTimeZone_plain: "parseTime t = Some ms \<Longrightarrow> parseTimeZone t = Some (ms, None)"
  by (simp add: parseTimeZone_def)

lemma newDate_dateTime:
  "length d = 10 \<Longrightarrow> newDate tz (d @ CHR ''T'' # t) =
     (case parseDate d of
        Some days \<Rightarrow>
          (case parseTimeZone t of
             Some (ms, zone) \<Rightarrow>
               Num (of_int (days * msPerDay + int ms
                            - (case zone of None \<Rightarrow> tz | Some off \<Rightarrow> off)))
           | None \<Rightarrow> NaN)
      | None \<Rightarrow> NaN)"
  by (simp add: newDate_def split: option.splits)

lemma parseDate_ref: "parseDate ''2000-01-01'' = Some 10957"
  by code_simp

lemma newDate_ref:
  "newDate tz (''2000-01-01T'' @ t) =
     (case parseTimeZone t of
        Some (ms, zone) \<Rightarrow>
          Num (of_int (946684800000 + int ms
                       - (case zone of None \<Rightarrow> tz | Some off \<Rightarrow> off)))
      | None \<Rightarrow> NaN)"
proof -
  have "newDate tz (''2000-01-01'' @ CHR ''T'' # t) =
     (case parseTimeZone t of
        Some (ms, zone) \<Rightarrow>
          Num (of_int (946684800000 + int ms
                       - (case zone of None \<Rightarrow> tz | Some off \<Rightarrow> off)))
      | None \<Rightarrow> NaN)"
    by (subst newDate_dateTime) (simp_all add: parseDate_ref msPerDay_def split: option.splits)
  then show ?thesis by simp
qed

lemmas newDate_ref_Cons = newDate_ref [unfolded append_Cons append_Nil]

lemma newDate_ref_Some:
  "parseTime x = Some ms \<Longrightarrow>
     newDate tz (''2000-01-01T'' @ x) = Num (946684800000 - real_of_int tz + real ms)"
  by (simp add: newDate_ref_Cons parseTimeZone_plain)


lemma newDate_dateOnly:
  "length s = 10 \<Longrightarrow>
     newDate tz s = (case parseDate s of
                       Some days \<Rightarrow> Num (of_int (days * msPerDay))
                     | None \<Rightarrow> NaN)"
  by (simp add: newDate_def)

lemma parseDate_20240101: "parseDate ''2024-01-01'' = Some 19723"
  by code_simp

lemma parseDate_day_overflow: "parseDate ''2024-02-30'' = parseDate ''2024-03-01''"
  by code_simp

lemma parseDate_20240103: "parseDate ''2024-01-03'' = Some 19725"
  by code_simp

lemma newDate_20240101: "newDate tz ''2024-01-01'' = Num 1704067200000"
  by (simp add: newDate_dateOnly parseDate_20240101 msPerDay_def)

lemma newDate_20240103: "newDate tz ''2024-01-03'' = Num 1704240000000"
  by (simp add: newDate_dateOnly parseDate_20240103 msPerDay_def)

section \<open>Facts about duty time\<close>

lemma foldl_js_min2_Num:
  "foldl js_min2 (Num a) (map (\<lambda>s. Num (f s)) xs) = Num (fold min (map f xs) a)"
  by (induction xs arbitrary: a) (simp_all add: min.commute)

lemma foldl_js_max2_Num:
  "foldl js_max2 (Num a) (map (\<lambda>s. Num (f s)) xs) = Num (fold max (map f xs) a)"
  by (induction xs arbitrary: a) (simp_all add: max.commute)

lemma Math_min_Num:
  "Math_min (Num (f x)) (map (\<lambda>s. Num (f s)) xs) = Num (Min (f ` set (x # xs)))"
  using Min.set_eq_fold [of "f x" "map f xs"]
  by (simp add: Math_min_def foldl_js_min2_Num)

lemma Math_max_Num:
  "Math_max (Num (f x)) (map (\<lambda>s. Num (f s)) xs) = Num (Max (f ` set (x # xs)))"
  using Max.set_eq_fold [of "f x" "map f xs"]
  by (simp add: Math_max_def foldl_js_max2_Num)

lemma calculateDutyTime_Num:
  assumes "ss \<noteq> []"
    and "\<forall>s\<in>set ss. newDate tz (''2000-01-01T'' @ takeoffTime s) = Num (t s)
                   \<and> newDate tz (''2000-01-01T'' @ landingTime s) = Num (l s)"
  shows "calculateDutyTime tz ss =
           Num (max 0 (((Max (l ` set ss) + 15 * 60 * 1000)
                        - (Min (t ` set ss) + 45 * 60 * 1000)) / (1000 * 60 * 60)))"
proof -
  from assms(1) obtain s0 rest where ss: "ss = s0 # rest" by (cases ss) auto
  have tk: "map (\<lambda>s. newDate tz (''2000-01-01T'' @ takeoffTime s)) ss = map (\<lambda>s. Num (t s)) ss"
    using assms(2) by (intro map_cong) auto
  have ld: "map (\<lambda>s. newDate tz (''2000-01-01T'' @ landingTime s)) ss = map (\<lambda>s. Num (l s)) ss"
    using assms(2) by (intro map_cong) auto
  have mn: "Math_min (Num (t s0)) (map (\<lambda>s. Num (t s)) rest) = Num (Min (t ` set ss))"
    unfolding ss by (rule Math_min_Num)
  have mx: "Math_max (Num (l s0)) (map (\<lambda>s. Num (l s)) rest) = Num (Max (l ` set ss))"
    unfolding ss by (rule Math_max_Num)
  have "calculateDutyTime tz ss =
          (let takeoffTimes = map (\<lambda>s. Num (t s)) ss;
               landingTimes = map (\<lambda>s. Num (l s)) ss;
               earliestTakeoff = Math_min (hd takeoffTimes) (tl takeoffTimes);
               latestLanding = Math_max (hd landingTimes) (tl landingTimes);
               dutyStart = js_add earliestTakeoff (Num (45 * 60 * 1000));
               dutyEnd = js_add latestLanding (Num (15 * 60 * 1000));
               dutyTimeMs = js_sub dutyEnd dutyStart;
               dutyTimeHours = js_div dutyTimeMs (1000 * 60 * 60)
           in js_max2 (Num 0) dutyTimeHours)"
    unfolding calculateDutyTime_def tk ld using assms(1) by simp
  also have "\<dots> = Num (max 0 (((Max (l ` set ss) + 15 * 60 * 1000)
                        - (Min (t ` set ss) + 45 * 60 * 1000)) / (1000 * 60 * 60)))"
    using mn mx by (simp add: ss Let_def)
  finally show ?thesis .
qed

lemmas parse_eval =
  parseTime.simps digits.simps digit_def mkTime_def parseTimeZone_def timePartLength_def
  parseZone.simps

lemma js_min2_NaN: "js_min2 x NaN = NaN"
  by (cases x) simp_all

lemma js_max2_NaN: "js_max2 x NaN = NaN"
  by (cases x) simp_all

lemma foldl_js_min2_NaN: "x = NaN \<or> NaN \<in> set xs \<Longrightarrow> foldl js_min2 x xs = NaN"
proof (induction xs arbitrary: x)
  case Nil
  then show ?case by simp
next
  case (Cons y ys)
  have "js_min2 x y = NaN \<or> NaN \<in> set ys"
    using Cons.prems by (auto simp: js_min2_NaN)
  then show ?case using Cons.IH [of "js_min2 x y"] by simp
qed

lemma foldl_js_max2_NaN: "x = NaN \<or> NaN \<in> set xs \<Longrightarrow> foldl js_max2 x xs = NaN"
proof (induction xs arbitrary: x)
  case Nil
  then show ?case by simp
next
  case (Cons y ys)
  have "js_max2 x y = NaN \<or> NaN \<in> set ys"
    using Cons.prems by (auto simp: js_max2_NaN)
  then show ?case using Cons.IH [of "js_max2 x y"] by simp
qed


lemma Math_min_NaN:
  assumes "xs \<noteq> []" and "NaN \<in> set xs"
  shows "Math_min (hd xs) (tl xs) = NaN"
proof -
  from assms(1) obtain a list where xs: "xs = a # list" by (cases xs) auto
  with assms(2) have "a = NaN \<or> NaN \<in> set list" by auto
  then show ?thesis unfolding Math_min_def xs by (simp add: foldl_js_min2_NaN)
qed

lemma Math_max_NaN:
  assumes "xs \<noteq> []" and "NaN \<in> set xs"
  shows "Math_max (hd xs) (tl xs) = NaN"
proof -
  from assms(1) obtain a list where xs: "xs = a # list" by (cases xs) auto
  with assms(2) have "a = NaN \<or> NaN \<in> set list" by auto
  then show ?thesis unfolding Math_max_def xs by (simp add: foldl_js_max2_NaN)
qed

lemma js_add_NaN [simp]: "js_add x NaN = NaN"
  by (cases x) simp_all

lemma js_sub_NaN [simp]: "js_sub x NaN = NaN"
  by (cases x) simp_all

lemma calculateDutyTime_NaN:
  assumes "s \<in> set ss"
    and "newDate tz (''2000-01-01T'' @ takeoffTime s) = NaN
         \<or> newDate tz (''2000-01-01T'' @ landingTime s) = NaN"
  shows "calculateDutyTime tz ss = NaN"
proof -
  from assms(1) have ne: "ss \<noteq> []" by auto
  define tk where "tk = map (\<lambda>s. newDate tz (''2000-01-01T'' @ takeoffTime s)) ss"
  define ld where "ld = map (\<lambda>s. newDate tz (''2000-01-01T'' @ landingTime s)) ss"
  have ne': "tk \<noteq> []" "ld \<noteq> []" using ne by (simp_all add: tk_def ld_def)
  have eq: "calculateDutyTime tz ss =
          js_max2 (Num 0)
            (js_div (js_sub (js_add (Math_max (hd ld) (tl ld)) (Num (15 * 60 * 1000)))
                            (js_add (Math_min (hd tk) (tl tk)) (Num (45 * 60 * 1000))))
                    (1000 * 60 * 60))"
    unfolding calculateDutyTime_def Let_def tk_def ld_def using ne by simp
  from assms(2) show ?thesis
  proof
    assume "newDate tz (''2000-01-01T'' @ takeoffTime s) = NaN"
    then have "NaN \<in> set tk"
      unfolding tk_def set_map using assms(1) by (intro image_eqI [where x = s]) simp_all
    then have "Math_min (hd tk) (tl tk) = NaN" using ne' by (intro Math_min_NaN)
    then show ?thesis unfolding eq by simp
  next
    assume "newDate tz (''2000-01-01T'' @ landingTime s) = NaN"
    then have "NaN \<in> set ld"
      unfolding ld_def set_map using assms(1) by (intro image_eqI [where x = s]) simp_all
    then have "Math_max (hd ld) (tl ld) = NaN" using ne' by (intro Math_max_NaN)
    then show ?thesis unfolding eq by simp
  qed
qed

section \<open>Duty time of a sector list\<close>

text \<open>
  Claim C3. The duty time of the empty sector list is zero. For a non-empty list whose
  takeoff and landing times all parse (to the instants \<open>t s\<close> and \<open>l s\<close>), it is
  the latest landing plus 15 minutes minus the earliest takeoff plus 45 minutes, in
  hours, floored at zero; earliest and latest range over all sectors of the list. If some
  time does not parse, the result is the number \<open>NaN\<close>. In every case a number is
  returned and nothing is raised.
\<close>

theorem calculateDutyTime_formula:
  "calculateDutyTime tz [] = Num 0
   \<and> (ss \<noteq> [] \<and> (\<forall>s\<in>set ss. newDate tz (''2000-01-01T'' @ takeoffTime s) = Num (t s)
                           \<and> newDate tz (''2000-01-01T'' @ landingTime s) = Num (l s))
      \<longrightarrow> calculateDutyTime tz ss =
            Num (max 0 (((Max (l ` set ss) + 15 * 60 * 1000)
                         - (Min (t ` set ss) + 45 * 60 * 1000)) / (1000 * 60 * 60))))
   \<and> ((\<exists>s\<in>set ss. newDate tz (''2000-01-01T'' @ takeoffTime s) = NaN
                    \<or> newDate tz (''2000-01-01T'' @ landingTime s) = NaN)
      \<longrightarrow> calculateDutyTime tz ss = NaN)"
proof (intro conjI impI)
  show "calculateDutyTime tz [] = Num 0"
    by (simp add: calculateDutyTime_def)
next
  assume "ss \<noteq> [] \<and> (\<forall>s\<in>set ss. newDate tz (''2000-01-01T'' @ takeoffTime s) = Num (t s)
                           \<and> newDate tz (''2000-01-01T'' @ landingTime s) = Num (l s))"
  then show "calculateDutyTime tz ss =
            Num (max 0 (((Max (l ` set ss) + 15 * 60 * 1000)
                         - (Min (t ` set ss) + 45 * 60 * 1000)) / (1000 * 60 * 60)))"
    using calculateDutyTime_Num [of ss tz t l] by blast
next
  assume "\<exists>s\<in>set ss. newDate tz (''2000-01-01T'' @ takeoffTime s) = NaN
                    \<or> newDate tz (''2000-01-01T'' @ landingTime s) = NaN"
  then show "calculateDutyTime tz ss = NaN"
    using calculateDutyTime_NaN by blast
qed

theorem calculateDutyTime_formula_witness:
  "calculateDutyTime 0 [exSectorA, exSectorB] = Num 6.25
   \<and> calculateDutyTime 0 [exSectorA, exSectorBad] = NaN"
proof
  define t :: "sector \<Rightarrow> real" where "t = (\<lambda>s. case parseTime (takeoffTime s) of
                              Some ms \<Rightarrow> 946684800000 + real ms | None \<Rightarrow> 0)"
  define l :: "sector \<Rightarrow> real" where "l = (\<lambda>s. case parseTime (landingTime s) of
                              Some ms \<Rightarrow> 946684800000 + real ms | None \<Rightarrow> 0)"
  have "\<forall>s\<in>set [exSectorA, exSectorB].
          newDate 0 (''2000-01-01T'' @ takeoffTime s) = Num (t s)
          \<and> newDate 0 (''2000-01-01T'' @ landingTime s) = Num (l s)"
    by (simp add: exSectorA_def exSectorB_def t_def l_def newDate_ref_Cons parse_eval)
  then have "calculateDutyTime 0 [exSectorA, exSectorB] =
            Num (max 0 (((Max (l ` set [exSectorA, exSectorB]) + 15 * 60 * 1000)
                 - (Min (t ` set [exSectorA, exSectorB]) + 45 * 60 * 1000)) / (1000 * 60 * 60)))"
    using calculateDutyTime_formula [of 0 "[exSectorA, exSectorB]" t l] by simp
  also have "\<dots> = Num 6.25"
    by (simp add: exSectorA_def exSectorB_def t_def l_def parse_eval)
  finally show "calculateDutyTime 0 [exSectorA, exSectorB] = Num 6.25" .
next
  have "newDate 0 (''2000-01-01T'' @ takeoffTime exSectorBad) = NaN"
    by (simp add: exSectorBad_def newDate_ref_Cons parse_eval)
  then show "calculateDutyTime 0 [exSectorA, exSectorBad] = NaN"
    using calculateDutyTime_formula [of 0 "[exSectorA, exSectorBad]"] by simp
qed

text \<open>
  Claim C10, as stated, fails. A time string that carries a UTC offset is read at that
  offset and not as a local time of the reference day: with the local zone at UTC, a
  takeoff at 00:00 and a landing written 23:30-12:00 give a duty time of 35 hours.
\<close>

theorem calculateDutyTime_offset_counterexample:
  "calculateDutyTime 0 [exSectorOffset] = Num 35
   \<and> js_ge (calculateDutyTime 0 [exSectorOffset]) (Num 24)"
proof -
  have "calculateDutyTime 0 [exSectorOffset] = Num 35"
    by (simp add: calculateDutyTime_def exSectorOffset_def Math_min_def Math_max_def
          newDate_ref_Cons parse_eval)
  then show ?thesis by simp
qed

text \<open>
  Claim C10, amended. When every takeoff and landing time of the list is a plain time of
  day (\<open>HH:mm\<close>, optionally with seconds and milliseconds, and without a UTC offset),
  the duty time is a number from 0 up to, but not reaching, 24 hours: all times are placed
  on the one reference day 2000-01-01 in local time, with no wrap past midnight. When the
  times are \<open>HH:mm\<close> values, it is at most (23:59 + 15 min) - (00:00 + 45 min), that is
  1409 minutes.
\<close>

theorem calculateDutyTime_below_24:
  assumes "\<forall>s\<in>set ss. parseTime (takeoffTime s) \<noteq> None \<and> parseTime (landingTime s) \<noteq> None"
  shows "\<exists>h. calculateDutyTime tz ss = Num h \<and> 0 \<le> h \<and> h < 24
             \<and> ((\<forall>s\<in>set ss. isHHmm (takeoffTime s) \<and> isHHmm (landingTime s))
                  \<longrightarrow> h \<le> ((23 * 60 + 59 + 15) - (0 + 45)) / 60)"
proof (cases "ss = []")
  case True
  then show ?thesis by (simp add: calculateDutyTime_def)
next
  case False
  define D :: real where "D = 946684800000 - real_of_int tz"
  define a :: "sector \<Rightarrow> nat" where "a = (\<lambda>s. the (parseTime (takeoffTime s)))"
  define b :: "sector \<Rightarrow> nat" where "b = (\<lambda>s. the (parseTime (landingTime s)))"
  have pa: "parseTime (takeoffTime s) = Some (a s)" and pb: "parseTime (landingTime s) = Some (b s)"
    if "s \<in> set ss" for s
    using assms that by (auto simp: a_def b_def)
  have nd: "\<forall>s\<in>set ss. newDate tz (''2000-01-01T'' @ takeoffTime s) = Num (D + real (a s))
                      \<and> newDate tz (''2000-01-01T'' @ landingTime s) = Num (D + real (b s))"
  proof (intro ballI conjI)
    fix s assume s: "s \<in> set ss"
    show "newDate tz (''2000-01-01T'' @ takeoffTime s) = Num (D + real (a s))"
      unfolding D_def by (rule newDate_ref_Some [OF pa [OF s]])
    show "newDate tz (''2000-01-01T'' @ landingTime s) = Num (D + real (b s))"
      unfolding D_def by (rule newDate_ref_Some [OF pb [OF s]])
  qed
  define X where "X = ((Max ((\<lambda>s. D + real (b s)) ` set ss) + 15 * 60 * 1000)
                        - (Min ((\<lambda>s. D + real (a s)) ` set ss) + 45 * 60 * 1000)) / (1000 * 60 * 60)"
  have eq: "calculateDutyTime tz ss = Num (max 0 X)"
    unfolding X_def using calculateDutyTime_Num [OF False nd] .
  have fin: "finite ((\<lambda>s. D + real (b s)) ` set ss)" "(\<lambda>s. D + real (b s)) ` set ss \<noteq> {}"
            "finite ((\<lambda>s. D + real (a s)) ` set ss)" "(\<lambda>s. D + real (a s)) ` set ss \<noteq> {}"
    using False by simp_all
  have lo: "D \<le> Min ((\<lambda>s. D + real (a s)) ` set ss)"
    using fin by (simp add: Min_ge_iff)
  have up: "Max ((\<lambda>s. D + real (b s)) ` set ss) \<le> D + 86400000"
  proof -
    have "D + real (b s) \<le> D + 86400000" if "s \<in> set ss" for s
      using parseTime_le [OF pb [OF that]] by simp
    then show ?thesis using fin by (simp add: Max_le_iff)
  qed
  have X24: "X \<le> 23.5"
    unfolding X_def using lo up by simp
  have tight: "X \<le> ((23 * 60 + 59 + 15) - (0 + 45)) / 60"
    if hm: "\<forall>s\<in>set ss. isHHmm (takeoffTime s) \<and> isHHmm (landingTime s)"
  proof -
    have "D + real (b s) \<le> D + 86340000" if "s \<in> set ss" for s
    proof -
      from hm that pb [OF that] have "length (landingTime s) = 5" "b s < 86400000"
        by (auto simp: isHHmm_def)
      with parseTime_hhmm_le [OF pb [OF that]] show ?thesis by simp
    qed
    then have "Max ((\<lambda>s. D + real (b s)) ` set ss) \<le> D + 86340000"
      using fin by (simp add: Max_le_iff)
    with lo show ?thesis unfolding X_def by simp
  qed
  show ?thesis
  proof (intro exI conjI impI)
    show "calculateDutyTime tz ss = Num (max 0 X)" by (rule eq)
    show "0 \<le> max 0 X" by simp
    show "max 0 X < 24" using X24 by simp
    show "max 0 X \<le> ((23 * 60 + 59 + 15) - (0 + 45)) / 60"
      if "\<forall>s\<in>set ss. isHHmm (takeoffTime s) \<and> isHHmm (landingTime s)"
      using tight [OF that] by simp
  qed
qed

theorem calculateDutyTime_below_24_witness:
  "list_all (\<lambda>s. isHHmm (takeoffTime s) \<and> isHHmm (landingTime s))
     [exSectorA, exSectorNight]
   \<and> (\<exists>h. calculateDutyTime 0 [exSectorA, exSectorNight] = Num h \<and> 0 \<le> h \<and> h < 24
            \<and> h \<le> ((23 * 60 + 59 + 15) - (0 + 45)) / 60)"
proof -
  have hm: "\<forall>s\<in>set [exSectorA, exSectorNight].
              isHHmm (takeoffTime s) \<and> isHHmm (landingTime s)"
    by (simp add: exSectorA_def exSectorNight_def isHHmm_def parse_eval)
  have ps: "\<forall>s\<in>set [exSectorA, exSectorNight].
              parseTime (takeoffTime s) \<noteq> None \<and> parseTime (landingTime s) \<noteq> None"
    by (simp add: exSectorA_def exSectorNight_def parse_eval)
  show ?thesis
    unfolding list_all_iff using calculateDutyTime_below_24 [OF ps, of 0] hm by blast
qed

section \<open>Flight time of one sector in the entry form\<close>

text \<open>
  Claim C5, as stated, fails: a non-empty string that is not a time of day gives an
  Invalid Date, and the result is \<open>NaN\<close>, not zero.
\<close>

theorem form_calculateFlightTime_malformed_counterexample:
  "parseTime ''abc'' = None \<and> form_calculateFlightTime 0 ''abc'' ''10:00'' \<noteq> Num 0"
  by (simp add: form_calculateFlightTime_def newDate_ref_Cons parse_eval)

text \<open>
  Claim C5, amended. If at least one of the two strings is empty, the result is zero. If
  both are non-empty and \<open>new Date\<close> makes an Invalid Date of at least one of them (put
  after \<open>2000-01-01T\<close>), the result is \<open>NaN\<close>. In both cases a number is returned and
  nothing is raised.
\<close>

theorem form_calculateFlightTime_malformed:
  "(takeoff = [] \<or> landing = [] \<longrightarrow> form_calculateFlightTime tz takeoff landing = Num 0)
   \<and> (takeoff \<noteq> [] \<and> landing \<noteq> []
        \<and> (newDate tz (''2000-01-01T'' @ takeoff) = NaN
             \<or> newDate tz (''2000-01-01T'' @ landing) = NaN)
        \<longrightarrow> form_calculateFlightTime tz takeoff landing = NaN)"
proof (intro conjI impI)
  assume "takeoff = [] \<or> landing = []"
  then show "form_calculateFlightTime tz takeoff landing = Num 0"
    by (auto simp: form_calculateFlightTime_def)
next
  assume a: "takeoff \<noteq> [] \<and> landing \<noteq> []
        \<and> (newDate tz (''2000-01-01T'' @ takeoff) = NaN
             \<or> newDate tz (''2000-01-01T'' @ landing) = NaN)"
  then have "js_sub (if js_lt (newDate tz (''2000-01-01T'' @ landing))
                              (newDate tz (''2000-01-01T'' @ takeoff))
                     then setDate_next (newDate tz (''2000-01-01T'' @ landing))
                     else newDate tz (''2000-01-01T'' @ landing))
                    (newDate tz (''2000-01-01T'' @ takeoff)) = NaN"
    by (auto simp: setDate_next_def)
  then show "form_calculateFlightTime tz takeoff landing = NaN"
    unfolding form_calculateFlightTime_def Let_def using a by simp
qed

theorem form_calculateFlightTime_malformed_witness:
  "form_calculateFlightTime 0 [] ''10:00'' = Num 0
   \<and> form_calculateFlightTime 0 ''10:00'' [] = Num 0
   \<and> newDate 0 (''2000-01-01T'' @ ''1x:00'') = NaN
   \<and> form_calculateFlightTime 0 ''10:00'' ''1x:00'' = NaN"
proof -
  have "newDate 0 (''2000-01-01T'' @ ''1x:00'') = NaN"
    by (simp add: newDate_ref_Cons parse_eval)
  then show ?thesis
    using form_calculateFlightTime_malformed [of "[]" "''10:00''" 0]
      form_calculateFlightTime_malformed [of "''10:00''" "[]" 0]
      form_calculateFlightTime_malformed [of "''10:00''" "''1x:00''" 0]
    by simp
qed

text \<open>
  A time with a UTC offset is a valid date-time: the takeoff 00:00Z and the landing
  00:00:00.360, with the local zone at UTC, are 360 milliseconds apart.
\<close>

lemma form_calculateFlightTime_offset_example:
  "form_calculateFlightTime 0 ''00:00Z'' ''00:00:00.360'' = Num 0.0001"
  by (simp add: form_calculateFlightTime_def newDate_ref_Cons parse_eval)

text \<open>
  Claim C6. If both strings are times of day and the landing is numerically earlier than
  the takeoff, the result is the landing plus 24 hours minus the takeoff, in hours; it is
  never negative, and it is positive unless the takeoff is written 24:00. Takeoff 23:30
  with landing 00:15 gives 0.75 hours.
\<close>

theorem form_calculateFlightTime_overnight:
  "form_calculateFlightTime tz ''23:30'' ''00:15'' = Num 0.75
   \<and> (parseTime takeoff = Some a \<and> parseTime landing = Some b \<and> b < a
        \<longrightarrow> (\<exists>h. form_calculateFlightTime tz takeoff landing = Num h
                 \<and> h = ((real b + 24 * 60 * 60 * 1000) - real a) / (1000 * 60 * 60)
                 \<and> 0 \<le> h \<and> (a < 86400000 \<longrightarrow> 0 < h)))"
proof (intro conjI impI)
  show "form_calculateFlightTime tz ''23:30'' ''00:15'' = Num 0.75"
    by (simp add: form_calculateFlightTime_def newDate_ref_Cons parse_eval
          setDate_next_def msPerDay_def)
next
  assume h: "parseTime takeoff = Some a \<and> parseTime landing = Some b \<and> b < a"
  then have ne: "takeoff \<noteq> []" "landing \<noteq> []"
    using parseTime_Nil by auto
  have ta: "newDate tz (''2000-01-01T'' @ takeoff) = Num (946684800000 - real_of_int tz + real a)"
    by (rule newDate_ref_Some) (use h in simp)
  have lb: "newDate tz (''2000-01-01T'' @ landing) = Num (946684800000 - real_of_int tz + real b)"
    by (rule newDate_ref_Some) (use h in simp)
  define d where "d = ((real b + 24 * 60 * 60 * 1000) - real a) / (1000 * 60 * 60)"
  have eq: "form_calculateFlightTime tz takeoff landing = Num d"
    unfolding form_calculateFlightTime_def Let_def ta lb d_def
    using ne h by (simp add: setDate_next_def msPerDay_def)
  have "a \<le> 86400000" using h parseTime_le by blast
  then have nonneg: "0 \<le> d" and pos: "a < 86400000 \<longrightarrow> 0 < d"
    by (simp_all add: d_def)
  show "\<exists>h. form_calculateFlightTime tz takeoff landing = Num h
                 \<and> h = ((real b + 24 * 60 * 60 * 1000) - real a) / (1000 * 60 * 60)
                 \<and> 0 \<le> h \<and> (a < 86400000 \<longrightarrow> 0 < h)"
    using eq nonneg pos unfolding d_def by blast
qed

theorem form_calculateFlightTime_overnight_witness:
  "parseTime ''22:10'' = Some 79800000 \<and> parseTime ''01:40'' = Some 6000000
   \<and> form_calculateFlightTime 0 ''22:10'' ''01:40'' = Num 3.5"
proof -
  have p: "parseTime ''22:10'' = Some 79800000 \<and> parseTime ''01:40'' = Some 6000000
           \<and> (6000000 :: nat) < 79800000"
    by (simp add: parse_eval)
  then show ?thesis
    using form_calculateFlightTime_overnight [of 0 "''22:10''" 79800000 "''01:40''" 6000000]
    by auto
qed

section \<open>Windowed totals and exceedance flags\<close>

lemma foldl_add_sum_list:
  fixes a :: "'b :: comm_monoid_add"
  shows "foldl (\<lambda>total x. total + f x) a xs = a + sum_list (map f xs)"
  by (induction xs arbitrary: a) (simp_all add: add.assoc)

lemma calculateFlightTime_sum: "calculateFlightTime ss = sum_list (map flightTime ss)"
  by (simp add: calculateFlightTime_def foldl_add_sum_list)

lemma sumFlightTime_sum:
  "sumFlightTime es = sum_list (map (\<lambda>e. calculateFlightTime (sectors e)) es)"
  by (simp add: sumFlightTime_def foldl_add_sum_list)

lemma sum_list_filter_mono:
  fixes f :: "'a \<Rightarrow> real"
  assumes "\<forall>x\<in>set xs. 0 \<le> f x" and "\<forall>x\<in>set xs. P x \<longrightarrow> Q x"
  shows "sum_list (map f (filter P xs)) \<le> sum_list (map f (filter Q xs))"
  using assms by (induction xs) auto

lemma js_ge_earlier: "js_ge d (Num x) \<Longrightarrow> y \<le> x \<Longrightarrow> js_ge d (Num y)"
  by (cases d) simp_all

lemma sumFlightTime_window_mono:
  assumes "\<forall>e\<in>set es. \<forall>s\<in>set (sectors e). 0 \<le> flightTime s" and "y \<le> x"
  shows "sumFlightTime (getEntriesInDateRange tz es (Num x) endDate)
         \<le> sumFlightTime (getEntriesInDateRange tz es (Num y) endDate)"
proof -
  have "\<forall>e\<in>set es. 0 \<le> calculateFlightTime (sectors e)"
    using assms(1) by (auto simp: calculateFlightTime_sum intro!: sum_list_nonneg)
  moreover have "\<forall>e\<in>set es.
       js_ge (newDate tz (date e)) (Num x) \<and> js_le (newDate tz (date e)) endDate
       \<longrightarrow> js_ge (newDate tz (date e)) (Num y) \<and> js_le (newDate tz (date e)) endDate"
    using assms(2) js_ge_earlier by blast
  ultimately show ?thesis
    unfolding sumFlightTime_sum getEntriesInDateRange_def Let_def
    by (rule sum_list_filter_mono)
qed

text \<open>
  Claim C7. For one pilot and one evaluation instant, if no stored sector has a negative
  flight time, the flight-time totals grow with the window: the 7-day total is at most
  the 28-day total, which is at most the 365-day total.
\<close>

theorem flightTime_window_monotone:
  assumes "\<forall>e\<in>set entries. \<forall>s\<in>set (sectors e). 0 \<le> flightTime s"
  shows "flightTime7Days (calculatePilotStats tz now name entries)
           \<le> flightTime28Days (calculatePilotStats tz now name entries)
         \<and> flightTime28Days (calculatePilotStats tz now name entries)
           \<le> flightTime365Days (calculatePilotStats tz now name entries)"
proof -
  have pe: "\<forall>e\<in>set (pilotEntriesOf name entries). \<forall>s\<in>set (sectors e). 0 \<le> flightTime s"
    using assms by (auto simp: pilotEntriesOf_def)
  have "now - 28 * 24 * 60 * 60 * 1000 \<le> now - 7 * 24 * 60 * 60 * 1000"
    and "now - 365 * 24 * 60 * 60 * 1000 \<le> now - 28 * 24 * 60 * 60 * 1000"
    by simp_all
  then show ?thesis
    using sumFlightTime_window_mono [OF pe] by (simp add: calculatePilotStats_def Let_def)
qed

theorem flightTime_window_monotone_witness:
  "list_all (\<lambda>e. list_all (\<lambda>s. 0 \<le> flightTime s) (sectors e)) [exEntry1, exEntry3]
   \<and> flightTime7Days (calculatePilotStats 0 exNow ''A. Smith'' [exEntry1, exEntry3]) = 8
   \<and> flightTime28Days (calculatePilotStats 0 exNow ''A. Smith'' [exEntry1, exEntry3]) = 13.75
   \<and> flightTime7Days (calculatePilotStats 0 exNow ''A. Smith'' [exEntry1, exEntry3])
       \<le> flightTime28Days (calculatePilotStats 0 exNow ''A. Smith'' [exEntry1, exEntry3])
   \<and> flightTime28Days (calculatePilotStats 0 exNow ''A. Smith'' [exEntry1, exEntry3])
       \<le> flightTime365Days (calculatePilotStats 0 exNow ''A. Smith'' [exEntry1, exEntry3])"
proof -
  have nn: "\<forall>e\<in>set [exEntry1, exEntry3]. \<forall>s\<in>set (sectors e). 0 \<le> flightTime s"
    by (simp add: exEntry1_def exEntry3_def exSectorA_def exSectorB_def exSectorC_def)
  have pe: "pilotEntriesOf ''A. Smith'' [exEntry1, exEntry3] = [exEntry1, exEntry3]"
    by (simp add: pilotEntriesOf_def exEntry1_def exEntry3_def)
  have d: "newDate 0 (date exEntry1) = Num 1704067200000"
          "newDate 0 (date exEntry3) = Num 1704240000000"
    by (simp_all add: exEntry1_def exEntry3_def newDate_20240101 newDate_20240103)
  have f: "calculateFlightTime (sectors exEntry1) = 5.75"
          "calculateFlightTime (sectors exEntry3) = 8"
    by (simp_all add: calculateFlightTime_def exEntry1_def exEntry3_def
          exSectorA_def exSectorB_def exSectorC_def)
  have t7: "flightTime7Days (calculatePilotStats 0 exNow ''A. Smith'' [exEntry1, exEntry3]) = 8"
    by (simp add: calculatePilotStats_def Let_def pe getEntriesInDateRange_def d exNow_def
          sumFlightTime_def f)
  have t28: "flightTime28Days (calculatePilotStats 0 exNow ''A. Smith'' [exEntry1, exEntry3]) = 13.75"
    by (simp add: calculatePilotStats_def Let_def pe getEntriesInDateRange_def d exNow_def
          sumFlightTime_def f)
  show ?thesis
    unfolding list_all_iff
    using nn t7 t28 flightTime_window_monotone [OF nn, of 0 exNow "''A. Smith''"]
    by blast
qed

text \<open>
  Claim C4. Each of the seven exceedance flags is the strict comparison of its total with
  its limit: flight time against 34, 100 and 1000 hours over 7, 28 and 365 days, duty time
  against 55, 190 and 1800 hours, and the 24-hour sector count against 10. A total equal
  to the limit is therefore not an exceedance, and any total above it is.
\<close>

theorem exceedance_strict:
  "exc_flightTime7Days (exceedances (calculatePilotStats tz now name entries))
     = (flightTime7Days (calculatePilotStats tz now name entries) > 34)
   \<and> exc_flightTime28Days (exceedances (calculatePilotStats tz now name entries))
     = (flightTime28Days (calculatePilotStats tz now name entries) > 100)
   \<and> exc_flightTime365Days (exceedances (calculatePilotStats tz now name entries))
     = (flightTime365Days (calculatePilotStats tz now name entries) > 1000)
   \<and> exc_dutyTime7Days (exceedances (calculatePilotStats tz now name entries))
     = js_gt (dutyTime7Days (calculatePilotStats tz now name entries)) (Num 55)
   \<and> exc_dutyTime28Days (exceedances (calculatePilotStats tz now name entries))
     = js_gt (dutyTime28Days (calculatePilotStats tz now name entries)) (Num 190)
   \<and> exc_dutyTime365Days (exceedances (calculatePilotStats tz now name entries))
     = js_gt (dutyTime365Days (calculatePilotStats tz now name entries)) (Num 1800)
   \<and> exc_sectors24Hours (exceedances (calculatePilotStats tz now name entries))
     = (sectors24Hours tz now name entries > 10)"
  by (simp add: calculatePilotStats_def Let_def FLIGHT_MAX_HOURS_7D_def
        FLIGHT_MAX_HOURS_28D_def FLIGHT_MAX_HOURS_365D_def DUTY_MAX_HOURS_7D_def
        DUTY_MAX_HOURS_28D_def DUTY_MAX_HOURS_365D_def FLIGHT_MAX_SECTORS_24H_def)

theorem exceedance_strict_witness:
  "flightTime7Days (calculatePilotStats 0 exNow ''A. Smith'' [exEntryLimit]) = 34
   \<and> \<not> exc_flightTime7Days (exceedances (calculatePilotStats 0 exNow ''A. Smith'' [exEntryLimit]))
   \<and> flightTime7Days (calculatePilotStats 0 exNow ''A. Smith'' [exEntryOver]) = 34.01
   \<and> exc_flightTime7Days (exceedances (calculatePilotStats 0 exNow ''A. Smith'' [exEntryOver]))"
proof -
  have pe: "pilotEntriesOf ''A. Smith'' [exEntryLimit] = [exEntryLimit]"
           "pilotEntriesOf ''A. Smith'' [exEntryOver] = [exEntryOver]"
    by (simp_all add: pilotEntriesOf_def exEntryLimit_def exEntryOver_def)
  have d: "newDate 0 (date exEntryLimit) = Num 1704240000000"
          "newDate 0 (date exEntryOver) = Num 1704240000000"
    by (simp_all add: exEntryLimit_def exEntryOver_def newDate_20240103)
  have f: "calculateFlightTime (sectors exEntryLimit) = 34"
          "calculateFlightTime (sectors exEntryOver) = 34.01"
    by (simp_all add: calculateFlightTime_def exEntryLimit_def exEntryOver_def
          exSectorLimit_def exSectorOver_def)
  have t1: "flightTime7Days (calculatePilotStats 0 exNow ''A. Smith'' [exEntryLimit]) = 34"
    by (simp add: calculatePilotStats_def Let_def pe getEntriesInDateRange_def d exNow_def
          sumFlightTime_def f)
  have t2: "flightTime7Days (calculatePilotStats 0 exNow ''A. Smith'' [exEntryOver]) = 34.01"
    by (simp add: calculatePilotStats_def Let_def pe getEntriesInDateRange_def d exNow_def
          sumFlightTime_def f)
  show ?thesis
    using exceedance_strict [of 0 exNow "''A. Smith''" "[exEntryLimit]"]
      exceedance_strict [of 0 exNow "''A. Smith''" "[exEntryOver]"]
    unfolding t1 t2 by simp
qed

section \<open>Daily duty grouper\<close>

lemma mset_insertBy: "mset (insertBy cmp x ys) = add_mset x (mset ys)"
  by (induction ys) simp_all

lemma mset_Array_sort: "mset (Array_sort cmp xs) = mset xs"
  by (induction xs) (simp_all add: Array_sort_def mset_insertBy)

lemma set_Array_sort: "set (Array_sort cmp xs) = set xs"
  using mset_Array_sort [of cmp xs] by (metis set_mset_mset)

lemma set_insertBy: "set (insertBy cmp x ys) = insert x (set ys)"
  using mset_insertBy [of cmp x ys] by (metis set_mset_add_mset_insert set_mset_mset)

lemma sorted_insertBy:
  fixes key :: "'a \<Rightarrow> real"
  assumes "\<forall>y\<in>set ys. js_gt (cmp x y) (Num 0) = (key y < key x)"
    and "sorted_wrt (\<lambda>a b. key a \<le> key b) ys"
  shows "sorted_wrt (\<lambda>a b. key a \<le> key b) (insertBy cmp x ys)"
  using assms
proof (induction ys)
  case Nil
  then show ?case by simp
next
  case (Cons y ys)
  show ?case
  proof (cases "js_gt (cmp x y) (Num 0)")
    case True
    with Cons.prems have "key y < key x" by simp
    moreover have "sorted_wrt (\<lambda>a b. key a \<le> key b) (insertBy cmp x ys)"
      using Cons by simp
    ultimately show ?thesis
      using True Cons.prems(2) by (auto simp: set_insertBy)
  next
    case False
    with Cons.prems have "key x \<le> key y" by simp
    then show ?thesis
      using False Cons.prems(2) by auto
  qed
qed

lemma sorted_Array_sort:
  fixes key :: "'a \<Rightarrow> real"
  assumes "\<forall>x\<in>set xs. \<forall>y\<in>set xs. js_gt (cmp x y) (Num 0) = (key y < key x)"
  shows "sorted_wrt (\<lambda>a b. key a \<le> key b) (Array_sort cmp xs)"
  using assms
proof (induction xs)
  case Nil
  then show ?case by (simp add: Array_sort_def)
next
  case (Cons x xs)
  have IH: "sorted_wrt (\<lambda>a b. key a \<le> key b) (Array_sort cmp xs)"
    using Cons by simp
  have "\<forall>y\<in>set (Array_sort cmp xs). js_gt (cmp x y) (Num 0) = (key y < key x)"
    using Cons.prems by (simp add: set_Array_sort)
  then have "sorted_wrt (\<lambda>a b. key a \<le> key b) (insertBy cmp x (Array_sort cmp xs))"
    using IH by (rule sorted_insertBy)
  then show ?case by (simp add: Array_sort_def)
qed



lemma grouped_groupEntry:
  assumes "grouped g seen" and "date e \<notin> set objectPrototypeKeys"
  shows "\<exists>g'. groupEntry g e = Inr g' \<and> grouped g' (seen @ [e])"
proof (cases "map_of g (date e)")
  case None
  then have fresh: "date e \<notin> fst ` set g" by (simp add: map_of_eq_None_iff)
  have eq: "groupEntry g e = Inr (g @ [(date e, [e])])"
    using None assms(2) by (simp add: groupEntry_def)
  have "grouped (g @ [(date e, [e])]) (seen @ [e])"
    unfolding grouped_def
  proof (intro conjI allI impI)
    show "distinct (map fst (g @ [(date e, [e])]))"
      using assms(1) fresh by (simp add: grouped_def)
    show "fst ` set (g @ [(date e, [e])]) = date ` set (seen @ [e])"
      using assms(1) by (auto simp: grouped_def)
    fix k v assume kv: "(k, v) \<in> set (g @ [(date e, [e])])"
    have "date e \<notin> date ` set seen"
      using assms(1) fresh by (simp add: grouped_def)
    then have "\<forall>x\<in>set seen. date x \<noteq> date e" by (metis imageI)
    then have none: "filter (\<lambda>x. date x = date e) seen = []"
      by (simp add: filter_empty_conv)
    show "v = filter (\<lambda>x. date x = k) (seen @ [e])"
    proof (cases "(k, v) \<in> set g")
      case True
      then have "k \<noteq> date e" using fresh by force
      moreover have "v = filter (\<lambda>x. date x = k) seen"
        using assms(1) True by (simp add: grouped_def)
      ultimately show ?thesis by auto
    next
      case False
      with kv have "k = date e" "v = [e]" by auto
      then show ?thesis using none by simp
    qed
  qed
  with eq show ?thesis by blast
next
  case (Some v)
  then have old: "date e \<in> fst ` set g" by (metis domI dom_map_of_conv_image_fst)
  let ?g' = "map (\<lambda>(k, v). if k = date e then (k, v @ [e]) else (k, v)) g"
  have eq: "groupEntry g e = Inr ?g'"
    using Some by (simp add: groupEntry_def)
  have keys: "map fst ?g' = map fst g"
    by (induction g) auto
  have "grouped ?g' (seen @ [e])"
    unfolding grouped_def
  proof (intro conjI)
    show "distinct (map fst ?g')" unfolding keys using assms(1) by (simp add: grouped_def)
    have "fst ` set ?g' = fst ` set g" using keys by (metis list.set_map)
    then show "fst ` set ?g' = date ` set (seen @ [e])"
      using assms(1) old by (auto simp: grouped_def)
    show "\<forall>k v. (k, v) \<in> set ?g' \<longrightarrow> v = filter (\<lambda>x. date x = k) (seen @ [e])"
    proof (intro allI impI)
      fix k v assume "(k, v) \<in> set ?g'"
      then obtain v0 where v0: "(k, v0) \<in> set g"
        and v: "v = (if k = date e then v0 @ [e] else v0)"
        by (auto split: if_splits)
      from assms(1) v0 have "v0 = filter (\<lambda>x. date x = k) seen"
        by (simp add: grouped_def)
      with v show "v = filter (\<lambda>x. date x = k) (seen @ [e])" by auto
    qed
  qed
  with eq show ?thesis by blast
qed

lemma grouped_groupByDate:
  assumes "grouped g seen" and "\<forall>e\<in>set es. date e \<notin> set objectPrototypeKeys"
  shows "\<exists>g'. groupByDate g es = Inr g' \<and> grouped g' (seen @ es)"
  using assms
proof (induction es arbitrary: g seen)
  case Nil
  then show ?case by simp
next
  case (Cons e es)
  from grouped_groupEntry [OF Cons.prems(1), of e] Cons.prems(2)
  obtain g1 where g1: "groupEntry g e = Inr g1" "grouped g1 (seen @ [e])" by auto
  from Cons.IH [OF g1(2)] Cons.prems(2)
  obtain g' where "groupByDate g1 es = Inr g'" "grouped g' ((seen @ [e]) @ es)" by auto
  with g1(1) show ?case by simp
qed


lemma day_date_mkDailyDetail [simp]: "day_date (mkDailyDetail g) = fst g"
  and day_entries_mkDailyDetail [simp]: "day_entries (mkDailyDetail g) = snd g"
  and day_sectors_mkDailyDetail [simp]:
    "day_sectors (mkDailyDetail g) = concat (map sectors (snd g))"
  by (simp_all add: mkDailyDetail_def Let_def)

lemma lastElem_last: "xs \<noteq> [] \<Longrightarrow> lastElem xs = Some (last xs)"
  by (simp add: lastElem_def last_conv_nth)

lemma firstElem_hd: "xs \<noteq> [] \<Longrightarrow> firstElem xs = Some (hd xs)"
  by (simp add: firstElem_def hd_conv_nth)

lemma isOvernight_mkDailyDetail:
  "isOvernight (mkDailyDetail g) =
     (if concat (map sectors (snd g)) = [] then None
      else Some (arrival (last (concat (map sectors (snd g)))) \<noteq> ''HTDA''))"
  by (simp add: mkDailyDetail_def Let_def lastElem_last) (simp add: lastElem_def)

lemma grouped_Nil: "grouped [] []"
  by (simp add: grouped_def)

lemma getPilotDailyDetails_Inr:
  assumes "\<forall>e\<in>set (pilotEntriesOf name stored). date e \<notin> set objectPrototypeKeys"
  obtains g where "grouped g (pilotEntriesOf name stored)"
    and "getPilotDailyDetails tz stored name =
           Inr (Array_sort (\<lambda>a b. js_sub (newDate tz (day_date b)) (newDate tz (day_date a)))
                  (map mkDailyDetail (Object_entries g)))"
proof -
  from grouped_groupByDate [OF grouped_Nil assms]
  obtain g where g: "groupByDate [] (pilotEntriesOf name stored) = Inr g"
    "grouped g (pilotEntriesOf name stored)" by auto
  then show ?thesis
    using that [of g] by (simp add: getPilotDailyDetails_def Let_def)
qed


lemma exStored_pilotEntries:
  "pilotEntriesOf ''A. Smith'' exStored = [exEntry1, exEntry3, exEntry1b]"
  by (simp add: pilotEntriesOf_def exStored_def exEntry1_def exEntryOther_def exEntry3_def
        exEntry1b_def)

lemma exStored_dates:
  "date exEntry1 = ''2024-01-01''" "date exEntry3 = ''2024-01-03''"
  "date exEntry1b = ''2024-01-01''"
  by (simp_all add: exEntry1_def exEntry3_def exEntry1b_def)

lemma exStored_sectors:
  "sectors exEntry1 = [exSectorA, exSectorB]" "sectors exEntry3 = [exSectorC]"
  "sectors exEntry1b = [exSectorNight]"
  by (simp_all add: exEntry1_def exEntry3_def exEntry1b_def)

lemma exStored_groups:
  "groupByDate [] [exEntry1, exEntry3, exEntry1b] =
     Inr [(''2024-01-01'', [exEntry1, exEntry1b]), (''2024-01-03'', [exEntry3])]"
  by (simp add: groupEntry_def exStored_dates objectPrototypeKeys_def)

lemma not_index_20240101: "\<not> isArrayIndex ''2024-01-01''"
  by code_simp

lemma not_index_20240103: "\<not> isArrayIndex ''2024-01-03''"
  by code_simp

lemma exStored_dailyDetails: "getPilotDailyDetails 0 exStored ''A. Smith'' = Inr exDays"
  unfolding getPilotDailyDetails_def exStored_pilotEntries Let_def exStored_groups
  by (simp add: Object_entries_def not_index_20240101 not_index_20240103 Array_sort_def
        newDate_20240101 newDate_20240103 exDays_def)

lemma exStored_hyp:
  "\<forall>e\<in>set (pilotEntriesOf ''A. Smith'' exStored).
     date e \<notin> set objectPrototypeKeys"
  by (simp add: exStored_pilotEntries exStored_dates objectPrototypeKeys_def)


text \<open>
  Claim C9. Under the same proviso, every returned day with at least one sector has its
  overnight flag set exactly when the arrival code of its last sector differs from the
  home base \<open>HTDA\<close>; the flag is a function of that arrival code alone. A day without
  sectors has no flag.
\<close>

theorem isOvernight_last_arrival:
  assumes "\<forall>e\<in>set (pilotEntriesOf name stored). date e \<notin> set objectPrototypeKeys"
  shows "\<exists>days. getPilotDailyDetails tz stored name = Inr days
     \<and> (\<forall>d\<in>set days.
           (day_sectors d \<noteq> []
              \<longrightarrow> isOvernight d = Some (arrival (last (day_sectors d)) \<noteq> ''HTDA''))
           \<and> (day_sectors d = [] \<longrightarrow> isOvernight d = None))"
proof -
  define cmp :: "dailyDetail \<Rightarrow> dailyDetail \<Rightarrow> jsnum" where
    "cmp = (\<lambda>a b. js_sub (newDate tz (day_date b)) (newDate tz (day_date a)))"
  from getPilotDailyDetails_Inr [OF assms, of tz]
  obtain g where
    res: "getPilotDailyDetails tz stored name =
            Inr (Array_sort cmp (map mkDailyDetail (Object_entries g)))"
    unfolding cmp_def by blast
  have "(day_sectors d \<noteq> []
              \<longrightarrow> isOvernight d = Some (arrival (last (day_sectors d)) \<noteq> ''HTDA''))
           \<and> (day_sectors d = [] \<longrightarrow> isOvernight d = None)"
    if "d \<in> set (Array_sort cmp (map mkDailyDetail (Object_entries g)))" for d
  proof -
    from that obtain kv where "d = mkDailyDetail kv"
      by (auto simp: set_Array_sort)
    then show ?thesis by (simp add: isOvernight_mkDailyDetail)
  qed
  with res show ?thesis by blast
qed

theorem isOvernight_last_arrival_witness:
  "list_all (\<lambda>e. date e \<notin> set objectPrototypeKeys) (pilotEntriesOf ''A. Smith'' exStored)
   \<and> getPilotDailyDetails 0 exStored ''A. Smith'' = Inr exDays
   \<and> map (\<lambda>d. arrival (last (day_sectors d))) exDays = [''KJFK'', ''HTDA'']
   \<and> map isOvernight exDays = [Some True, Some False]"
proof -
  from isOvernight_last_arrival [OF exStored_hyp, of 0]
  have ov: "\<forall>d\<in>set exDays. day_sectors d \<noteq> []
              \<longrightarrow> isOvernight d = Some (arrival (last (day_sectors d)) \<noteq> ''HTDA'')"
    unfolding exStored_dailyDetails by auto
  have ar: "map (\<lambda>d. arrival (last (day_sectors d))) exDays = [''KJFK'', ''HTDA'']"
    by (simp add: exDays_def exStored_sectors exSectorC_def exSectorNight_def)
  have ne: "\<forall>d\<in>set exDays. day_sectors d \<noteq> []"
    by (simp add: exDays_def exStored_sectors)
  from ov ne have "map isOvernight exDays
      = map (\<lambda>d. Some (arrival (last (day_sectors d)) \<noteq> ''HTDA'')) exDays"
    by simp
  also have "\<dots> = [Some True, Some False]"
    using ar by (simp add: exDays_def)
  finally show ?thesis
    unfolding list_all_iff using exStored_hyp exStored_dailyDetails ar by blast
qed

section \<open>Rest periods between consecutive duty days\<close>

lemma restStep_eq:
  "restStep tz days acc i =
     (if bothFlown (days ! i) (days ! (i + 1)) then
        \<lparr> acc_total = acc_total acc + 1,
          acc_compliant = (if isCompliant (spec_restPeriod tz (days ! i) (days ! (i + 1)))
                           then acc_compliant acc + 1 else acc_compliant acc),
          acc_details = acc_details acc @ [spec_restPeriod tz (days ! i) (days ! (i + 1))] \<rparr>
      else acc)"
proof (cases "bothFlown (days ! i) (days ! (i + 1))")
  case True
  then have "lastElem (day_sectors (days ! i)) = Some (last (day_sectors (days ! i)))"
    and "firstElem (day_sectors (days ! (i + 1))) = Some (hd (day_sectors (days ! (i + 1))))"
    by (simp_all add: bothFlown_def lastElem_last firstElem_hd)
  then show ?thesis
    using True by (simp add: restStep_def spec_restPeriod_def Let_def)
next
  case False
  then have "lastElem (day_sectors (days ! i)) = None
             \<or> firstElem (day_sectors (days ! (i + 1))) = None"
    by (auto simp: bothFlown_def lastElem_def firstElem_def)
  then show ?thesis
    using False by (auto simp: restStep_def Let_def split: option.splits)
qed

lemma foldl_restStep:
  "acc_details (foldl (restStep tz days) acc is) =
     acc_details acc @ map (\<lambda>i. spec_restPeriod tz (days ! i) (days ! (i + 1)))
                         (filter (\<lambda>i. bothFlown (days ! i) (days ! (i + 1))) is)
   \<and> acc_total (foldl (restStep tz days) acc is) =
     acc_total acc + length (filter (\<lambda>i. bothFlown (days ! i) (days ! (i + 1))) is)
   \<and> acc_compliant (foldl (restStep tz days) acc is) =
     acc_compliant acc
     + length (filter (\<lambda>i. bothFlown (days ! i) (days ! (i + 1))
                           \<and> isCompliant (spec_restPeriod tz (days ! i) (days ! (i + 1)))) is)"
proof (induction "is" arbitrary: acc)
  case Nil
  then show ?case by simp
next
  case (Cons i "is")
  define a' where "a' = restStep tz days acc i"
  have d: "acc_details a' = acc_details acc @
             (if bothFlown (days ! i) (days ! (i + 1))
              then [spec_restPeriod tz (days ! i) (days ! (i + 1))] else [])"
    and t: "acc_total a' = acc_total acc + (if bothFlown (days ! i) (days ! (i + 1)) then 1 else 0)"
    and c: "acc_compliant a' = acc_compliant acc +
             (if bothFlown (days ! i) (days ! (i + 1))
                 \<and> isCompliant (spec_restPeriod tz (days ! i) (days ! (i + 1))) then 1 else 0)"
    unfolding a'_def restStep_eq by simp_all
  have "foldl (restStep tz days) acc (i # is) = foldl (restStep tz days) a' is"
    by (simp add: a'_def)
  then show ?case
    using Cons.IH [of a'] d t c by simp
qed

lemma zip_tl_indices:
  "zip days (tl days) = map (\<lambda>i. (days ! i, days ! (i + 1))) [0 ..< length days - 1]"
  by (rule nth_equalityI) (simp_all add: nth_tl)

lemma restLoop_details:
  "acc_details (restLoop tz days) =
     map (\<lambda>(cur, nxt). spec_restPeriod tz cur nxt)
       (filter (\<lambda>(cur, nxt). bothFlown cur nxt) (zip days (tl days)))"
  unfolding restLoop_def zip_tl_indices
  by (simp add: foldl_restStep filter_map comp_def)

lemma restLoop_total:
  "acc_total (restLoop tz days) = length (acc_details (restLoop tz days))"
  unfolding restLoop_def by (simp add: foldl_restStep)

lemma restLoop_compliant:
  "acc_compliant (restLoop tz days) = length (filter isCompliant (acc_details (restLoop tz days)))"
  unfolding restLoop_def by (simp add: foldl_restStep filter_map comp_def)

lemma spec_restPeriod_fields:
  "rp_start (spec_restPeriod tz cur nxt) =
     js_add (newDate tz (day_date cur @ ''T'' @ landingTime (last (day_sectors cur))))
       (Num (15 * 60 * 1000))"
  "rp_end (spec_restPeriod tz cur nxt) =
     js_add (newDate tz (day_date nxt @ ''T'' @ takeoffTime (hd (day_sectors nxt))))
       (Num (45 * 60 * 1000))"
  "hours (spec_restPeriod tz cur nxt) =
     js_div (js_sub (rp_end (spec_restPeriod tz cur nxt)) (rp_start (spec_restPeriod tz cur nxt)))
       (60 * 60 * 1000)"
  "isCompliant (spec_restPeriod tz cur nxt) = js_ge (hours (spec_restPeriod tz cur nxt)) (Num 36)"
  "fromDate (spec_restPeriod tz cur nxt) = day_date cur"
  "toDate (spec_restPeriod tz cur nxt) = day_date nxt"
  by (simp_all add: spec_restPeriod_def Let_def)


lemma spec_restPeriod_hours:
  assumes "length (day_date cur) = 10" and "length (day_date nxt) = 10"
    and "parseDate (day_date cur) = Some dc" and "parseDate (day_date nxt) = Some dn"
    and "parseTime (landingTime (last (day_sectors cur))) = Some a"
    and "parseTime (takeoffTime (hd (day_sectors nxt))) = Some b"
  shows "hours (spec_restPeriod tz cur nxt) =
           Num (((real_of_int dn * 86400000 + real b + 2700000)
                 - (real_of_int dc * 86400000 + real a + 900000)) / 3600000)"
  using assms
  by (simp add: spec_restPeriod_def Let_def newDate_dateTime parseTimeZone_plain msPerDay_def)

text \<open>
  Claim C1. For any list of daily summaries (in particular one sorted ascending by date),
  the loop produces one rest period for each adjacent pair of days that both have a
  sector, in order, and none for the other pairs. The rest period of a pair is the one the
  specification describes (\<open>spec_restPeriod\<close>): start is the last landing of the
  earlier day on that day's date plus 15 minutes, end is the first takeoff of the later
  day on that day's date plus 45 minutes, the duration is end minus start in hours, and it
  is compliant iff the duration is at least 36. A duration of exactly 36 hours is
  compliant and one of 35.99 hours is not. The two counters count the pairs and the
  compliant pairs.
\<close>

theorem restLoop_adjacent_pairs:
  "acc_details (restLoop tz days) =
     map (\<lambda>(cur, nxt). spec_restPeriod tz cur nxt)
       (filter (\<lambda>(cur, nxt). day_sectors cur \<noteq> [] \<and> day_sectors nxt \<noteq> [])
          (zip days (tl days)))
   \<and> acc_total (restLoop tz days) = length (acc_details (restLoop tz days))
   \<and> acc_compliant (restLoop tz days)
       = length (filter isCompliant (acc_details (restLoop tz days)))
   \<and> (\<forall>r\<in>set (acc_details (restLoop tz days)).
         isCompliant r = js_ge (hours r) (Num 36)
         \<and> (hours r = Num 36 \<longrightarrow> isCompliant r)
         \<and> (hours r = Num 35.99 \<longrightarrow> \<not> isCompliant r))"
proof (intro conjI ballI)
  show "acc_details (restLoop tz days) =
     map (\<lambda>(cur, nxt). spec_restPeriod tz cur nxt)
       (filter (\<lambda>(cur, nxt). day_sectors cur \<noteq> [] \<and> day_sectors nxt \<noteq> [])
          (zip days (tl days)))"
    using restLoop_details [of tz days] by (simp add: bothFlown_def)
  show "acc_total (restLoop tz days) = length (acc_details (restLoop tz days))"
    by (rule restLoop_total)
  show "acc_compliant (restLoop tz days)
       = length (filter isCompliant (acc_details (restLoop tz days)))"
    by (rule restLoop_compliant)
next
  fix r assume "r \<in> set (acc_details (restLoop tz days))"
  then obtain cur nxt where "r = spec_restPeriod tz cur nxt"
    unfolding restLoop_details by auto
  then have c: "isCompliant r = js_ge (hours r) (Num 36)"
    by (simp add: spec_restPeriod_fields)
  then show "isCompliant r = js_ge (hours r) (Num 36)" .
  from c show "hours r = Num 36 \<longrightarrow> isCompliant r" by simp
  from c show "hours r = Num 35.99 \<longrightarrow> \<not> isCompliant r" by simp
qed

lemma parseDate_20240105: "parseDate ''2024-01-05'' = Some 19727"
  by code_simp

lemma parseDate_20240107: "parseDate ''2024-01-07'' = Some 19729"
  by code_simp

lemma parseDate_20240109: "parseDate ''2024-01-09'' = Some 19731"
  by code_simp

lemma exDay_dates:
  "day_date exDay1 = ''2024-01-01''" "day_date exDay3 = ''2024-01-03''"
  "day_date exDay5 = ''2024-01-05''" "day_date exDay7 = ''2024-01-07''"
  "day_date exDay9 = ''2024-01-09''"
  by (simp_all add: exDay1_def exDay3_def exDay5_def exDay7_def exDay9_def)

lemma exDay_sectors:
  "day_sectors exDay1 = [exSectorA, exSectorB]" "day_sectors exDay3 = [exSectorC]"
  "day_sectors exDay5 = [exSectorD]" "day_sectors exDay7 = [exSectorE]"
  "day_sectors exDay9 = []"
  by (simp_all add: exDay1_def exDay3_def exDay5_def exDay7_def exDay9_def
        exEntry1_def exEntry3_def exEntry5_def exEntry7_def exEntry9_def)

lemmas exRest_eval =
  exDay_dates exDay_sectors parseDate_20240101 parseDate_20240103 parseDate_20240105
  parseDate_20240107 exSectorB_def exSectorC_def exSectorD_def exSectorE_def parse_eval

lemma exRest_hours_1_3: "hours (spec_restPeriod tz exDay1 exDay3) = Num 40.75"
proof -
  have "hours (spec_restPeriod tz exDay1 exDay3) =
          Num (((real_of_int 19725 * 86400000 + real 21600000 + 2700000)
                - (real_of_int 19723 * 86400000 + real 49500000 + 900000)) / 3600000)"
    by (rule spec_restPeriod_hours) (simp_all add: exRest_eval)
  also have "\<dots> = Num 40.75" by simp
  finally show ?thesis .
qed

lemma exRest_hours_3_5: "hours (spec_restPeriod tz exDay3 exDay5) = Num 36"
proof -
  have "hours (spec_restPeriod tz exDay3 exDay5) =
          Num (((real_of_int 19727 * 86400000 + real 5400000 + 2700000)
                - (real_of_int 19725 * 86400000 + real 50400000 + 900000)) / 3600000)"
    by (rule spec_restPeriod_hours) (simp_all add: exRest_eval)
  also have "\<dots> = Num 36" by simp
  finally show ?thesis .
qed

lemma exRest_hours_5_7: "hours (spec_restPeriod tz exDay5 exDay7) = Num 35.99"
proof -
  have "hours (spec_restPeriod tz exDay5 exDay7) =
          Num (((real_of_int 19729 * 86400000 + real 26964000 + 2700000)
                - (real_of_int 19727 * 86400000 + real 72000000 + 900000)) / 3600000)"
    by (rule spec_restPeriod_hours) (simp_all add: exRest_eval)
  also have "\<dots> = Num 35.99" by simp
  finally show ?thesis .
qed

lemmas exRest_hours = exRest_hours_1_3 exRest_hours_3_5 exRest_hours_5_7

theorem restLoop_adjacent_pairs_witness:
  "map fromDate (acc_details (restLoop 0 exRestDays))
     = [''2024-01-01'', ''2024-01-03'', ''2024-01-05'']
   \<and> map toDate (acc_details (restLoop 0 exRestDays))
     = [''2024-01-03'', ''2024-01-05'', ''2024-01-07'']
   \<and> map hours (acc_details (restLoop 0 exRestDays)) = [Num 40.75, Num 36, Num 35.99]
   \<and> map isCompliant (acc_details (restLoop 0 exRestDays)) = [True, True, False]
   \<and> acc_total (restLoop 0 exRestDays) = 3
   \<and> acc_compliant (restLoop 0 exRestDays) = 2"
proof -
  have d: "acc_details (restLoop 0 exRestDays) =
             [spec_restPeriod 0 exDay1 exDay3, spec_restPeriod 0 exDay3 exDay5,
              spec_restPeriod 0 exDay5 exDay7]"
    using restLoop_adjacent_pairs [of 0 exRestDays]
    by (simp add: exRestDays_def exDay_sectors)
  have c3: "isCompliant (spec_restPeriod 0 exDay1 exDay3)"
    "isCompliant (spec_restPeriod 0 exDay3 exDay5)"
    "\<not> isCompliant (spec_restPeriod 0 exDay5 exDay7)"
    by (simp_all add: spec_restPeriod_fields(4) exRest_hours)
  have c: "map isCompliant (acc_details (restLoop 0 exRestDays)) = [True, True, False]"
    unfolding d by (simp add: c3)
  have "acc_total (restLoop 0 exRestDays) = length (acc_details (restLoop 0 exRestDays))"
    using restLoop_adjacent_pairs [of 0 exRestDays] by blast
  then have "acc_total (restLoop 0 exRestDays) = 3"
    unfolding d by simp
  moreover have "acc_compliant (restLoop 0 exRestDays)
       = length (filter isCompliant (acc_details (restLoop 0 exRestDays)))"
    using restLoop_adjacent_pairs [of 0 exRestDays] by blast
  then have "acc_compliant (restLoop 0 exRestDays) = 2"
    unfolding d by (simp add: c3)
  moreover have "map hours (acc_details (restLoop 0 exRestDays)) = [Num 40.75, Num 36, Num 35.99]"
    unfolding d by (simp add: exRest_hours)
  moreover have "map fromDate (acc_details (restLoop 0 exRestDays))
     = [''2024-01-01'', ''2024-01-03'', ''2024-01-05'']"
    "map toDate (acc_details (restLoop 0 exRestDays))
     = [''2024-01-03'', ''2024-01-05'', ''2024-01-07'']"
    unfolding d by (simp_all add: spec_restPeriod_fields exDay_dates)
  ultimately show ?thesis using c by blast
qed

section \<open>The recent view\<close>

lemma filter_zip_all_left:
  "\<forall>x\<in>set xs. P x \<Longrightarrow> filter (\<lambda>(c, n). P c) (zip xs ys) = zip xs ys"
  by (rule filter_True) (auto dest: set_zip_leftD)

lemma zip_tl_filter_sorted:
  assumes "sorted_wrt le days" and "\<And>a b. le a b \<Longrightarrow> P a \<Longrightarrow> P b"
  shows "zip (filter P days) (tl (filter P days))
           = filter (\<lambda>(c, n). P c) (zip days (tl days))"
  using assms(1)
proof (induction days)
  case Nil
  then show ?case by simp
next
  case (Cons d ds)
  show ?case
  proof (cases "P d")
    case True
    with Cons.prems assms(2) have all: "\<forall>x\<in>set (d # ds). P x" by auto
    then have "filter P (d # ds) = d # ds" by simp
    moreover have "filter (\<lambda>(c, n). P c) (zip (d # ds) (tl (d # ds))) = zip (d # ds) (tl (d # ds))"
      using all by (rule filter_zip_all_left)
    ultimately show ?thesis by simp
  next
    case False
    from Cons have IH: "zip (filter P ds) (tl (filter P ds))
                          = filter (\<lambda>(c, n). P c) (zip ds (tl ds))" by simp
    show ?thesis
      using False IH by (cases ds) simp_all
  qed
qed

lemma js_window_upward:
  "js_le a b \<Longrightarrow> js_ge a t \<Longrightarrow> js_ge b t"
  by (cases a; cases b; cases t) simp_all

lemma restLoop_recentDays:
  assumes "sorted_wrt (\<lambda>a b. js_le (newDate tz (day_date a)) (newDate tz (day_date b))) days"
  shows "acc_details (restLoop tz (recentDays tz now days)) =
           filter (\<lambda>r. js_ge (newDate tz (fromDate r)) (sevenDaysBefore now))
             (acc_details (restLoop tz days))"
proof -
  define P where "P = (\<lambda>d :: dailyDetail. js_ge (newDate tz (day_date d)) (sevenDaysBefore now))"
  have z: "zip (filter P days) (tl (filter P days)) = filter (\<lambda>(c, n). P c) (zip days (tl days))"
    using assms
  proof (rule zip_tl_filter_sorted)
    fix a b :: dailyDetail
    assume "js_le (newDate tz (day_date a)) (newDate tz (day_date b))" and "P a"
    then show "P b" unfolding P_def by (rule js_window_upward)
  qed
  have "acc_details (restLoop tz (recentDays tz now days)) =
          map (\<lambda>(cur, nxt). spec_restPeriod tz cur nxt)
            (filter (\<lambda>(cur, nxt). bothFlown cur nxt)
               (filter (\<lambda>(c, n). P c) (zip days (tl days))))"
    unfolding restLoop_details recentDays_def Let_def P_def [symmetric] z ..
  also have "\<dots> = filter (\<lambda>r. js_ge (newDate tz (fromDate r)) (sevenDaysBefore now))
             (acc_details (restLoop tz days))"
    unfolding restLoop_details
    by (simp add: filter_map comp_def case_prod_unfold spec_restPeriod_fields P_def conj_commute)
  finally show ?thesis .
qed

lemma sorted_ascending:
  fixes days :: "dailyDetail list"
  assumes "\<forall>d\<in>set days. newDate tz (day_date d) \<noteq> NaN"
  shows "sorted_wrt (\<lambda>a b. js_le (newDate tz (day_date a)) (newDate tz (day_date b)))
           (Array_sort (\<lambda>a b. js_sub (newDate tz (day_date a)) (newDate tz (day_date b))) days)"
proof -
  define dv :: "dailyDetail \<Rightarrow> real" where
    "dv = (\<lambda>d. case newDate tz (day_date d) of Num x \<Rightarrow> x | NaN \<Rightarrow> 0)"
  define cmp :: "dailyDetail \<Rightarrow> dailyDetail \<Rightarrow> jsnum" where
    "cmp = (\<lambda>a b. js_sub (newDate tz (day_date a)) (newDate tz (day_date b)))"
  have num: "newDate tz (day_date d) = Num (dv d)" if "d \<in> set days" for d
    using assms that by (cases "newDate tz (day_date d)") (auto simp: dv_def)
  have "\<forall>x\<in>set days. \<forall>y\<in>set days. js_gt (cmp x y) (Num 0) = (dv y < dv x)"
    using num by (auto simp: cmp_def)
  then have "sorted_wrt (\<lambda>a b. dv a \<le> dv b) (Array_sort cmp days)"
    by (rule sorted_Array_sort)
  then show ?thesis
    unfolding cmp_def [symmetric]
    by (rule sorted_wrt_mono_rel [rotated]) (simp add: num set_Array_sort)
qed

lemma exLog_pilotEntries: "pilotEntriesOf ''A. Smith'' exLog = exLog"
  by (simp add: pilotEntriesOf_def exLog_def exEntry1_def exEntry3_def exEntry5_def
        exEntry7_def exEntry9_def)

lemma exLog_entry_dates:
  "date exEntry5 = ''2024-01-05''" "date exEntry7 = ''2024-01-07''"
  "date exEntry9 = ''2024-01-09''"
  by (simp_all add: exEntry5_def exEntry7_def exEntry9_def)

lemma exLog_groups:
  "groupByDate [] exLog =
     Inr [(''2024-01-01'', [exEntry1]), (''2024-01-03'', [exEntry3]),
          (''2024-01-05'', [exEntry5]), (''2024-01-07'', [exEntry7]),
          (''2024-01-09'', [exEntry9])]"
  by (simp add: exLog_def groupEntry_def exStored_dates exLog_entry_dates
        objectPrototypeKeys_def)

lemma not_index_2024010x:
  "\<not> isArrayIndex ''2024-01-05''" "\<not> isArrayIndex ''2024-01-07''"
  "\<not> isArrayIndex ''2024-01-09''"
  by code_simp+

lemma exDay_newDate:
  "newDate tz (day_date exDay1) = Num 1704067200000"
  "newDate tz (day_date exDay3) = Num 1704240000000"
  "newDate tz (day_date exDay5) = Num 1704412800000"
  "newDate tz (day_date exDay7) = Num 1704585600000"
  "newDate tz (day_date exDay9) = Num 1704758400000"
  by (simp_all add: exDay_dates newDate_dateOnly parseDate_20240101 parseDate_20240103
        parseDate_20240105 parseDate_20240107 parseDate_20240109 msPerDay_def)

lemma exLog_dailyDetails: "getPilotDailyDetails 0 exLog ''A. Smith'' = Inr exDaysDesc"
  unfolding getPilotDailyDetails_def exLog_pilotEntries Let_def exLog_groups
  by (simp add: Object_entries_def not_index_20240101 not_index_20240103 not_index_2024010x
        exDay1_def [symmetric] exDay3_def [symmetric] exDay5_def [symmetric]
        exDay7_def [symmetric] exDay9_def [symmetric]
        Array_sort_def exDay_newDate exDaysDesc_def)

lemma exDaysDesc_sorted:
  "Array_sort (\<lambda>a b. js_sub (newDate 0 (day_date a)) (newDate 0 (day_date b))) exDaysDesc
     = exRestDays"
  by (simp add: Array_sort_def exDaysDesc_def exRestDays_def exDay_newDate)

lemma exRestDays_recent:
  "recentDays 0 exNow exRestDays = [exDay3, exDay5, exDay7, exDay9]"
  by (simp add: recentDays_def sevenDaysBefore_def exNow_def exRestDays_def exDay_newDate)

lemma exRest_compliant:
  "isCompliant (spec_restPeriod 0 exDay1 exDay3)"
  "isCompliant (spec_restPeriod 0 exDay3 exDay5)"
  "\<not> isCompliant (spec_restPeriod 0 exDay5 exDay7)"
  by (simp_all add: spec_restPeriod_fields(4) exRest_hours)

lemma exRestDays_full:
  "acc_details (restLoop 0 exRestDays) =
     [spec_restPeriod 0 exDay1 exDay3, spec_restPeriod 0 exDay3 exDay5,
      spec_restPeriod 0 exDay5 exDay7]"
  by (simp add: restLoop_details bothFlown_def exRestDays_def exDay_sectors)

lemma exRestDays_recent_details:
  "acc_details (restLoop 0 [exDay3, exDay5, exDay7, exDay9]) =
     [spec_restPeriod 0 exDay3 exDay5, spec_restPeriod 0 exDay5 exDay7]"
  by (simp add: restLoop_details bothFlown_def exDay_sectors)

lemma exDay_overnight:
  "isOvernight exDay1 = Some True" "isOvernight exDay3 = Some True"
  "isOvernight exDay5 = Some False" "isOvernight exDay7 = Some True"
  "isOvernight exDay9 = None"
  by (simp_all add: exDay1_def exDay3_def exDay5_def exDay7_def exDay9_def
        isOvernight_mkDailyDetail exEntry1_def exEntry3_def exEntry5_def exEntry7_def
        exEntry9_def exSectorB_def exSectorC_def exSectorD_def exSectorE_def)

lemma exLog_overnight:
  "getPilotOvernightCount 0 exNow exLog ''A. Smith'' =
     Inr \<lparr> oc_totalOvernights = 3, oc_recentOvernights = 2 \<rparr>"
  unfolding getPilotOvernightCount_def exLog_dailyDetails
  by (simp add: exDaysDesc_def exDay_overnight exDay_newDate sevenDaysBefore_def exNow_def)

lemma exLog_result: "getPilotRestCompliance 0 exNow exNow exLog ''A. Smith'' = Inr exResult"
  unfolding getPilotRestCompliance_def exLog_dailyDetails exLog_overnight
  by (simp add: Let_def exDaysDesc_sorted exRestDays_recent restLoop_total restLoop_compliant
        exRestDays_full exRestDays_recent_details exRest_compliant exResult_def)

text \<open>
  Claim C2, as stated, fails. In the example log the rest period from 2024-01-01 to
  2024-01-03 is part of the full history and its later day lies within the seven days
  before \<open>exNow\<close>, but the recent view starts with the rest period from 2024-01-03:
  the earlier day 2024-01-01 is outside the window, and the pair is dropped.
\<close>

theorem recent_view_by_later_day_counterexample:
  "getPilotRestCompliance 0 exNow exNow exLog ''A. Smith'' = Inr exResult
   \<and> map fromDate (acc_details (restLoop 0 exRestDays))
       = [''2024-01-01'', ''2024-01-03'', ''2024-01-05'']
   \<and> map toDate (acc_details (restLoop 0 exRestDays))
       = [''2024-01-03'', ''2024-01-05'', ''2024-01-07'']
   \<and> js_ge (newDate 0 ''2024-01-03'') (sevenDaysBefore exNow)
   \<and> js_le (newDate 0 ''2024-01-03'') (Num exNow)
   \<and> map fromDate (recentRestPeriodDetails exResult) = [''2024-01-03'', ''2024-01-05'']
   \<and> map toDate (recentRestPeriodDetails exResult) = [''2024-01-05'', ''2024-01-07'']"
proof -
  have "js_ge (newDate 0 ''2024-01-03'') (sevenDaysBefore exNow)"
    and "js_le (newDate 0 ''2024-01-03'') (Num exNow)"
    by (simp_all add: newDate_20240103 sevenDaysBefore_def exNow_def)
  moreover have "map fromDate (acc_details (restLoop 0 exRestDays))
       = [''2024-01-01'', ''2024-01-03'', ''2024-01-05'']"
    and "map toDate (acc_details (restLoop 0 exRestDays))
       = [''2024-01-03'', ''2024-01-05'', ''2024-01-07'']"
    by (simp_all add: exRestDays_full spec_restPeriod_fields exDay_dates)
  moreover have "map fromDate (recentRestPeriodDetails exResult) = [''2024-01-03'', ''2024-01-05'']"
    and "map toDate (recentRestPeriodDetails exResult) = [''2024-01-05'', ''2024-01-07'']"
    by (simp_all add: exResult_def spec_restPeriod_fields exDay_dates)
  ultimately show ?thesis
    using exLog_result by simp
qed

text \<open>
  Claim C2, amended. When the daily summaries are returned and all their dates parse, the
  evaluator returns a result with two views: the number of rest periods of the full
  history (the loop over all days in ascending order), and the recent rest periods, which
  are exactly those rest periods of the full history whose earlier day's date is on or
  after the instant seven days before \<open>now\<close>, in the same order and with the same
  pairing of days.
\<close>

theorem recent_view_by_earlier_day:
  assumes "getPilotDailyDetails tz stored name = Inr dailyDetails"
    and "\<forall>d\<in>set dailyDetails. newDate tz (day_date d) \<noteq> NaN"
  shows "\<exists>res. getPilotRestCompliance tz now now' stored name = Inr res
     \<and> totalRestPeriods res
         = length (acc_details (restLoop tz
             (Array_sort (\<lambda>a b. js_sub (newDate tz (day_date a)) (newDate tz (day_date b)))
                dailyDetails)))
     \<and> recentRestPeriodDetails res
         = filter (\<lambda>r. js_ge (newDate tz (fromDate r)) (sevenDaysBefore now))
             (acc_details (restLoop tz
                (Array_sort (\<lambda>a b. js_sub (newDate tz (day_date a)) (newDate tz (day_date b)))
                   dailyDetails)))
     \<and> recentRestPeriods res = length (recentRestPeriodDetails res)"
proof -
  define sorted where
    "sorted = Array_sort (\<lambda>a b. js_sub (newDate tz (day_date a)) (newDate tz (day_date b)))
                dailyDetails"
  obtain oc where oc: "getPilotOvernightCount tz now' stored name = Inr oc"
    using assms(1) by (simp add: getPilotOvernightCount_def Let_def)
  define res where
    "res = \<lparr> totalOvernights = oc_totalOvernights oc,
             totalRestPeriods = acc_total (restLoop tz sorted),
             compliantRestPeriods = acc_compliant (restLoop tz sorted),
             recentOvernights = oc_recentOvernights oc,
             recentRestPeriods = acc_total (restLoop tz (recentDays tz now sorted)),
             recentCompliantRestPeriods = acc_compliant (restLoop tz (recentDays tz now sorted)),
             isFullyCompliant =
               (acc_total (restLoop tz (recentDays tz now sorted)) = 0
                \<or> acc_compliant (restLoop tz (recentDays tz now sorted))
                    = acc_total (restLoop tz (recentDays tz now sorted))),
             recentRestPeriodDetails = acc_details (restLoop tz (recentDays tz now sorted)) \<rparr>"
  have r: "getPilotRestCompliance tz now now' stored name = Inr res"
    using assms(1) oc by (simp add: getPilotRestCompliance_def Let_def res_def sorted_def)
  have s: "sorted_wrt (\<lambda>a b. js_le (newDate tz (day_date a)) (newDate tz (day_date b))) sorted"
    unfolding sorted_def using assms(2) by (rule sorted_ascending)
  have "totalRestPeriods res = length (acc_details (restLoop tz sorted))"
    by (simp add: res_def restLoop_total)
  moreover have "recentRestPeriodDetails res
         = filter (\<lambda>r. js_ge (newDate tz (fromDate r)) (sevenDaysBefore now))
             (acc_details (restLoop tz sorted))"
    using restLoop_recentDays [OF s, of now] by (simp add: res_def)
  moreover have "recentRestPeriods res = length (recentRestPeriodDetails res)"
    by (simp add: res_def restLoop_total)
  ultimately show ?thesis
    using r unfolding sorted_def by blast
qed

theorem recent_view_by_earlier_day_witness:
  "getPilotDailyDetails 0 exLog ''A. Smith'' = Inr exDaysDesc
   \<and> list_all (\<lambda>d. newDate 0 (day_date d) \<noteq> NaN) exDaysDesc
   \<and> (\<exists>res. getPilotRestCompliance 0 exNow exNow exLog ''A. Smith'' = Inr res
          \<and> totalRestPeriods res = 3
          \<and> map fromDate (recentRestPeriodDetails res) = [''2024-01-03'', ''2024-01-05'']
          \<and> recentRestPeriods res = 2)"
proof -
  have v: "\<forall>d\<in>set exDaysDesc. newDate 0 (day_date d) \<noteq> NaN"
    by (simp add: exDaysDesc_def exDay_newDate)
  from recent_view_by_earlier_day [OF exLog_dailyDetails v, of exNow exNow]
  obtain res where res: "getPilotRestCompliance 0 exNow exNow exLog ''A. Smith'' = Inr res"
    and t: "totalRestPeriods res = length (acc_details (restLoop 0 exRestDays))"
    and r: "recentRestPeriodDetails res
              = filter (\<lambda>r. js_ge (newDate 0 (fromDate r)) (sevenDaysBefore exNow))
                  (acc_details (restLoop 0 exRestDays))"
    and n: "recentRestPeriods res = length (recentRestPeriodDetails res)"
    unfolding exDaysDesc_sorted by blast
  have r': "recentRestPeriodDetails res
              = [spec_restPeriod 0 exDay3 exDay5, spec_restPeriod 0 exDay5 exDay7]"
    unfolding r exRestDays_full
    by (simp add: spec_restPeriod_fields exDay_newDate sevenDaysBefore_def exNow_def)
  have "totalRestPeriods res = 3" using t by (simp add: exRestDays_full)
  moreover have "map fromDate (recentRestPeriodDetails res) = [''2024-01-03'', ''2024-01-05'']"
    unfolding r' by (simp add: spec_restPeriod_fields exDay_dates)
  moreover have "recentRestPeriods res = 2" using n unfolding r' by simp
  ultimately have "\<exists>res. getPilotRestCompliance 0 exNow exNow exLog ''A. Smith'' = Inr res
          \<and> totalRestPeriods res = 3
          \<and> map fromDate (recentRestPeriodDetails res) = [''2024-01-03'', ''2024-01-05'']
          \<and> recentRestPeriods res = 2"
    using res by (intro exI [of _ res]) simp
  then show ?thesis unfolding list_all_iff using exLog_dailyDetails v by blast
qed

end
